theory Spec2Isabelle
  imports Main "HOL-Library.Word"
begin

section \<open>Python values and string primitives\<close>

text \<open>
  The two modules are Python 2 code on top of Django. The values that reach the
  code are modelled by small datatypes. Form data and URL arguments reach the code as
  unicode strings: a string is the list of its code points, each below 256 (a
  \<open>char\<close> is the Latin-1 character of that number). Exceptions are values of the type
  \<open>exn\<close>, and a function that may raise returns \<open>exn + 'a\<close>.
\<close>

datatype pyobj = PyNone | PyBool bool | PyInt int | PyStr string

datatype exn =
    ValidationError string
  | ValueError
  | OverflowError
  | AttributeError string
  | KeyError string
  | DoesNotExist
  | Http404

text \<open>
  \<^verbatim>\<open>s.strip()\<close> removes the whitespace at both ends. For a unicode string the
  whitespace below 256 is the blank, the control characters 9 to 13, the separators 28
  to 31, the next-line character U+0085 and the no-break space U+00A0.
\<close>

definition is_space :: "char \<Rightarrow> bool" where
  "is_space c \<longleftrightarrow>
     c \<in> set [CHR '' '', CHR 0x09, CHR 0x0A, CHR 0x0B, CHR 0x0C, CHR 0x0D,
              CHR 0x1C, CHR 0x1D, CHR 0x1E, CHR 0x1F, CHR 0x85, CHR 0xA0]"

definition strip :: "string \<Rightarrow> string" where
  "strip s = rev (dropWhile is_space (rev (dropWhile is_space s)))"

text \<open>\<^verbatim>\<open>s.split(sep)\<close> for a one-character separator: \<^verbatim>\<open>''.split(',')\<close> is \<^verbatim>\<open>['']\<close>.\<close>

fun split_on :: "char \<Rightarrow> string \<Rightarrow> string \<Rightarrow> string list" where
  "split_on sep cur [] = [rev cur]"
| "split_on sep cur (c # cs) =
     (if c = sep then rev cur # split_on sep [] cs else split_on sep (c # cur) cs)"

definition split :: "string \<Rightarrow> char \<Rightarrow> string list" where
  "split s sep = split_on sep [] s"

text \<open>\<^verbatim>\<open>sep.join(xs)\<close>.\<close>

fun join :: "string \<Rightarrow> string list \<Rightarrow> string" where
  "join sep [] = []"
| "join sep [x] = x"
| "join sep (x # y # ys) = x @ sep @ join sep (y # ys)"

text \<open>\<^verbatim>\<open>str(n)\<close> of an integer: its decimal digits, with a leading minus sign.\<close>

definition digit_char :: "nat \<Rightarrow> char" where
  "digit_char d = char_of (48 + d)"

function str_nat :: "nat \<Rightarrow> string" where
  "str_nat n = (if n < 10 then [digit_char n] else str_nat (n div 10) @ [digit_char (n mod 10)])"
  by pat_completeness auto
termination
  by (relation "measure id") auto

definition str_int :: "int \<Rightarrow> string" where
  "str_int i = (if i < 0 then CHR ''-'' # str_nat (nat (- i)) else str_nat (nat i))"

text \<open>
  \<^verbatim>\<open>int(s)\<close> of a string, base 10: surrounding whitespace is ignored, then an optional
  sign and at least one decimal digit. Anything else raises \<^verbatim>\<open>ValueError\<close> (\<open>None\<close>).
\<close>

definition is_digit :: "char \<Rightarrow> bool" where
  "is_digit c \<longleftrightarrow> 48 \<le> (of_char c :: nat) \<and> (of_char c :: nat) \<le> 57"

definition digit_val :: "char \<Rightarrow> nat" where
  "digit_val c = of_char c - 48"

definition digits_val :: "string \<Rightarrow> nat option" where
  "digits_val ds =
     (if ds \<noteq> [] \<and> list_all is_digit ds
      then Some (foldl (\<lambda>a c. 10 * a + digit_val c) 0 ds) else None)"

definition py_int :: "string \<Rightarrow> int option" where
  "py_int s =
     (case strip s of
        [] \<Rightarrow> None
      | c # cs \<Rightarrow>
          if c = CHR ''-'' then map_option (\<lambda>n. - int n) (digits_val cs)
          else if c = CHR ''+'' then map_option int (digits_val cs)
          else map_option int (digits_val (c # cs)))"

text \<open>\<^verbatim>\<open>str(x)\<close> of the other values that can end up in an error message.\<close>

fun py_str :: "pyobj \<Rightarrow> string" where
  "py_str PyNone = ''None''"
| "py_str (PyBool b) = (if b then ''True'' else ''False'')"
| "py_str (PyInt i) = str_int i"
| "py_str (PyStr s) = s"

text \<open>
  A Python \<^verbatim>\<open>set\<close> built from a list: the elements without repetition. Python fixes no
  order for the elements of a set; the model lists them as they first occur, and the
  properties below speak of the elements only.
\<close>

definition py_set :: "'a list \<Rightarrow> 'a list" where
  "py_set xs = remdups xs"

text \<open>\<^verbatim>\<open>a ^ b\<close> on sets: the symmetric difference.\<close>

definition set_xor :: "'a list \<Rightarrow> 'a list \<Rightarrow> 'a list" where
  "set_xor a b = filter (\<lambda>x. x \<notin> set b) a @ filter (\<lambda>x. x \<notin> set a) b"


section \<open>Users and the user table\<close>

text \<open>
  \<^verbatim>\<open>django.contrib.auth.models.User\<close>: the primary key and the user name are the
  attributes the code reads. The table is the list of its rows. The key column
  (\<^verbatim>\<open>id\<close>) holds what the database stores, a signed 64-bit integer, and \<^verbatim>\<open>user.pk\<close> is
  that number as a Python integer. Two model instances are equal (\<^verbatim>\<open>==\<close>) when their
  primary keys are.
\<close>

record user =
  user_id :: "64 word"
  username :: string

definition pk :: "user \<Rightarrow> int" where
  "pk u = sint (user_id u)"

definition user_eq :: "user \<Rightarrow> user \<Rightarrow> bool" where
  "user_eq u v \<longleftrightarrow> pk u = pk v"

text \<open>
  Attribute access \<^verbatim>\<open>u.name\<close>. The model class has \<^verbatim>\<open>pk\<close>, \<^verbatim>\<open>id\<close> and
  \<^verbatim>\<open>username\<close>; a name it does not define raises \<^verbatim>\<open>AttributeError\<close> (\<open>None\<close>).
\<close>

definition getattr_user :: "user \<Rightarrow> string \<Rightarrow> pyobj option" where
  "getattr_user u name =
     (if name = ''pk'' \<or> name = ''id'' then Some (PyInt (pk u))
      else if name = ''username'' then Some (PyStr (username u))
      else None)"

text \<open>
  \<^verbatim>\<open>User.objects.filter(pk__in=ids)\<close>, evaluated: every element of \<open>ids\<close> is converted
  with \<^verbatim>\<open>int()\<close> (a \<^verbatim>\<open>ValueError\<close> of the conversion propagates); the numbers are bound
  as parameters of the query, where one that does not fit a signed 64-bit integer
  raises \<^verbatim>\<open>OverflowError\<close>; and the rows whose primary key is among the numbers are
  returned in table order.
\<close>

definition in_db_range :: "int \<Rightarrow> bool" where
  "in_db_range k \<longleftrightarrow> - (2 ^ 63) \<le> k \<and> k < 2 ^ 63"

fun those_ints :: "string list \<Rightarrow> int list option" where
  "those_ints [] = Some []"
| "those_ints (s # ss) =
     (case py_int s of
        None \<Rightarrow> None
      | Some i \<Rightarrow> (case those_ints ss of None \<Rightarrow> None | Some is \<Rightarrow> Some (i # is)))"

definition filter_pk_in :: "user list \<Rightarrow> string list \<Rightarrow> exn + user list" where
  "filter_pk_in table ids =
     (case those_ints ids of
        None \<Rightarrow> Inl ValueError
      | Some ks \<Rightarrow>
          if list_all in_db_range ks then Inr (filter (\<lambda>u. pk u \<in> set ks) table)
          else Inl OverflowError)"


section \<open>The form field \<^verbatim>\<open>CommaSeparatedUserField\<close>\<close>

text \<open>
  What \<^verbatim>\<open>clean\<close> and \<^verbatim>\<open>render\<close> are called with: \<^verbatim>\<open>None\<close>, a string, or a list
  or tuple of users (the two cases the code tests with \<^verbatim>\<open>isinstance\<close>).
\<close>

datatype form_value = FNone | FStr string | FList "user list" | FTuple "user list"

text \<open>
  The field keeps the \<^verbatim>\<open>required\<close> flag of \<^verbatim>\<open>forms.Field\<close> (\<^verbatim>\<open>True\<close> unless the form
  says otherwise) and the \<^verbatim>\<open>recipient_filter\<close> that \<^verbatim>\<open>__init__\<close> pops from its keyword
  arguments (\<^verbatim>\<open>None\<close> when absent).
\<close>

record field =
  required :: bool
  recipient_filter :: "(user \<Rightarrow> pyobj) option"

text \<open>\<^verbatim>\<open>not value\<close>: \<^verbatim>\<open>None\<close>, the empty string, the empty list and the empty tuple are false.\<close>

fun py_not :: "form_value \<Rightarrow> bool" where
  "py_not FNone = True"
| "py_not (FStr s) = (s = [])"
| "py_not (FList us) = (us = [])"
| "py_not (FTuple us) = (us = [])"

text \<open>\<^verbatim>\<open>value in EMPTY_VALUES\<close>, where \<^verbatim>\<open>EMPTY_VALUES = (None, '', [], (), {})\<close>.\<close>

definition in_EMPTY_VALUES :: "form_value \<Rightarrow> bool" where
  "in_EMPTY_VALUES v \<longleftrightarrow> v = FNone \<or> v = FStr [] \<or> v = FList [] \<or> v = FTuple []"

text \<open>
  \<^verbatim>\<open>forms.Field.clean\<close>, which \<^verbatim>\<open>clean\<close> calls first through \<^verbatim>\<open>super\<close>: it raises the
  validation error of a required field on an empty value, and its return value is
  discarded. \<open>None\<close> means that it returned.
\<close>

definition Field_clean :: "field \<Rightarrow> form_value \<Rightarrow> exn option" where
  "Field_clean f v =
     (if required f \<and> in_EMPTY_VALUES v
      then Some (ValidationError ''This field is required.'') else None)"

text \<open>\<^verbatim>\<open>users.remove(r)\<close>: drops the first element equal to \<open>r\<close>.\<close>

fun list_remove :: "user \<Rightarrow> user list \<Rightarrow> user list" where
  "list_remove r [] = []"
| "list_remove r (x # xs) = (if user_eq x r then xs else x # list_remove r xs)"

lemma length_list_remove: "length (list_remove r xs) \<le> length xs"
  by (induction xs) auto

text \<open>
  The loop \<^verbatim>\<open>for r in users\<close> of \<^verbatim>\<open>clean\<close>. Python iterates a list by position, and
  the body removes from the list it iterates, so the model carries the position \<open>i\<close>
  and the current list. A rejected user is removed, then \<^verbatim>\<open>r.gk\<close> is read and
  appended to \<^verbatim>\<open>invalid_users\<close>.
\<close>

function recipient_loop ::
  "(user \<Rightarrow> pyobj) \<Rightarrow> nat \<Rightarrow> user list \<Rightarrow> pyobj list \<Rightarrow> exn + (user list \<times> pyobj list)" where
  "recipient_loop rf i users invalid_users =
     (if i < length users then
        (let r = users ! i in
         if rf r = PyBool False then
           (let users' = list_remove r users in
            case getattr_user r ''gk'' of
              None \<Rightarrow> Inl (AttributeError ''gk'')
            | Some v \<Rightarrow> recipient_loop rf (Suc i) users' (invalid_users @ [v]))
         else recipient_loop rf (Suc i) users invalid_users)
      else Inr (users, invalid_users))"
  by pat_completeness auto
termination
proof (relation "measure (\<lambda>(rf, i, users, invalid_users). length users - i)")
  show "wf (measure (\<lambda>(rf, i, users, invalid_users). length users - i))"
    by simp
next
  fix rf :: "user \<Rightarrow> pyobj" and i users and invalid_users :: "pyobj list" and x xa x2
  assume "i < length users" "xa = list_remove x users"
  then show "((rf, Suc i, xa, invalid_users @ [x2]), (rf, i, users, invalid_users))
      \<in> measure (\<lambda>(rf, i, users, invalid_users). length users - i)"
    using length_list_remove [of x users] by simp
next
  fix rf :: "user \<Rightarrow> pyobj" and i and users :: "user list"
    and invalid_users :: "pyobj list" and x :: user
  assume "i < length users"
  then show "((rf, Suc i, users, invalid_users), (rf, i, users, invalid_users))
      \<in> measure (\<lambda>(rf, i, users, invalid_users). length users - i)"
    by simp
qed

definition incorrect_message :: "string list \<Rightarrow> string" where
  "incorrect_message incorrect = ''The following user IDs are incorrect: '' @ join '', '' incorrect"

text \<open>The part of \<^verbatim>\<open>clean\<close> that handles a non-empty string (from \<^verbatim>\<open>value.split\<close> on).\<close>

definition clean_ids :: "field \<Rightarrow> user list \<Rightarrow> string \<Rightarrow> exn + form_value" where
  "clean_ids f table s =
     (let ids = py_set (split s CHR '','');
          ids_set = py_set (map strip (filter (\<lambda>uid. strip uid \<noteq> []) ids))
      in case filter_pk_in table ids_set of
           Inl e \<Rightarrow> Inl e
         | Inr users \<Rightarrow>
            (let unknown_ids = set_xor ids_set (py_set (map (\<lambda>u. str_int (pk u)) users)) in
             case (case recipient_filter f of
                     None \<Rightarrow> Inr (users, [])
                   | Some rf \<Rightarrow> recipient_loop rf 0 users []) of
               Inl e \<Rightarrow> Inl e
             | Inr (users', invalid_users) \<Rightarrow>
                 if unknown_ids \<noteq> [] \<or> invalid_users \<noteq> []
                 then Inl (ValidationError
                        (incorrect_message (unknown_ids @ map py_str invalid_users)))
                 else Inr (FList users')))"

definition clean :: "field \<Rightarrow> user list \<Rightarrow> form_value \<Rightarrow> exn + form_value" where
  "clean f table v =
     (case Field_clean f v of
        Some e \<Rightarrow> Inl e
      | None \<Rightarrow>
          if py_not v then Inr (FStr [])
          else (case v of
                  FList us \<Rightarrow> Inr v
                | FTuple us \<Rightarrow> Inr v
                | FStr s \<Rightarrow> clean_ids f table s
                | FNone \<Rightarrow> Inl (AttributeError ''split'')))"

text \<open>
  \<^verbatim>\<open>CommaSeparatedUserInput.render\<close>. The rendering of the hidden input itself is the
  base class's (\<^verbatim>\<open>widgets.HiddenInput.render\<close>), a parameter here.
\<close>

definition render ::
  "(string \<Rightarrow> form_value \<Rightarrow> 'a \<Rightarrow> string) \<Rightarrow> string \<Rightarrow> form_value \<Rightarrow> 'a \<Rightarrow> string" where
  "render super_render name v attrs =
     super_render name
       (case v of
          FNone \<Rightarrow> FStr []
        | FList us \<Rightarrow> FStr (join '', '' (map (\<lambda>u. str_int (pk u)) us))
        | FTuple us \<Rightarrow> FStr (join '', '' (map (\<lambda>u. str_int (pk u)) us))
        | FStr s \<Rightarrow> FStr s)
       attrs"


section \<open>Messages, requests and the database\<close>

type_synonym datetime = nat

text \<open>
  Modelled from the spec: the \<^verbatim>\<open>Message\<close> model, whose class is declared in the models
  module, which is not among the sources. The spec gives it as a record with
  sender, recipient, body, timestamps and soft-delete markers; the views also read
  its subject. A timestamp that is \<^verbatim>\<open>None\<close> is \<open>None\<close>.
\<close>

record message =
  sender :: user
  recipient :: user
  subject :: string
  body :: string
  sent_at :: "datetime option"
  read_at :: "datetime option"
  replied_at :: "datetime option"
  sender_deleted_at :: "datetime option"
  recipient_deleted_at :: "datetime option"

text \<open>\<^verbatim>\<open>request.user\<close> is a \<^verbatim>\<open>User\<close> of the table or the anonymous user.\<close>

datatype request_user = AnonymousUser | LoggedIn user

text \<open>\<^verbatim>\<open>message.sender == user\<close>: a model instance never equals the anonymous user.\<close>

fun is_user :: "user \<Rightarrow> request_user \<Rightarrow> bool" where
  "is_user u AnonymousUser = False"
| "is_user u (LoggedIn v) = user_eq u v"

record request =
  user :: request_user
  "method" :: string
  path :: string
  GET :: "string \<rightharpoonup> string"
  POST :: "string \<rightharpoonup> string"

text \<open>
  Everything a view can read or change: the user table, the signatures of the user
  profiles (by user pk), the message table (a message row is stored under its id), the
  ids written by \<^verbatim>\<open>Model.save\<close> in order, the texts queued by \<^verbatim>\<open>messages.info\<close>, and
  the notices handed to \<^verbatim>\<open>notification.send\<close>.
\<close>

record db =
  user_table :: "user list"
  profile_signature :: "int \<rightharpoonup> string"
  message_table :: "nat \<rightharpoonup> message"
  save_log :: "nat list"
  flash :: "string list"
  notices :: "(request_user list \<times> string \<times> nat) list"

text \<open>
  What is fixed when the module is imported: whether the \<^verbatim>\<open>notification\<close> application is
  installed (the module-level name \<^verbatim>\<open>notification\<close> is the application's models module
  or \<^verbatim>\<open>None\<close>), the result of \<^verbatim>\<open>reverse('messages_inbox')\<close>, and the login URL.
\<close>

record module_globals =
  notification :: bool
  inbox_url :: string
  login_url :: string

text \<open>
  A form instance, as far as the views touch it: the bound data (\<^verbatim>\<open>None\<close> for an unbound
  form), the \<^verbatim>\<open>recipient_filter\<close> keyword it was built with, and the \<^verbatim>\<open>initial\<close> values
  set on it or on its fields.
\<close>

record form =
  data :: "(string \<rightharpoonup> string) option"
  filter_kw :: "(user \<Rightarrow> pyobj) option"
  initial :: "(string \<times> form_value) list"

text \<open>
  The \<^verbatim>\<open>form_class\<close> argument of \<^verbatim>\<open>compose\<close> and \<^verbatim>\<open>reply\<close> (by default the
  \<^verbatim>\<open>ComposeForm\<close> of the forms module, which is not among the sources): its validation,
  its \<^verbatim>\<open>save\<close>, which writes to the database, and its \<^verbatim>\<open>recipient\<close> field.
\<close>

record form_class =
  is_valid :: "form \<Rightarrow> db \<Rightarrow> bool"
  form_save :: "form \<Rightarrow> request_user \<Rightarrow> (nat \<times> message) option \<Rightarrow> db \<Rightarrow> db"
  fields_recipient :: "form \<Rightarrow> field"

text \<open>
  The manager methods \<^verbatim>\<open>inbox_for\<close>, \<^verbatim>\<open>outbox_for\<close> and \<^verbatim>\<open>trash_for\<close> of
  \<^verbatim>\<open>Message.objects\<close> are declared in the models module as well: queries that read the
  message table, taken as parameters.
\<close>

record manager =
  inbox_for :: "(nat \<rightharpoonup> message) \<Rightarrow> request_user \<Rightarrow> (nat \<times> message) list"
  outbox_for :: "(nat \<rightharpoonup> message) \<Rightarrow> request_user \<Rightarrow> (nat \<times> message) list"
  trash_for :: "(nat \<rightharpoonup> message) \<Rightarrow> request_user \<Rightarrow> (nat \<times> message) list"

datatype template_context =
    MessageList "(nat \<times> message) list"
  | MessageCtx nat message
  | FormCtx form

datatype response =
    HttpResponseRedirect string
  | Rendered string template_context

type_synonym outcome = "(exn + response) \<times> db"

text \<open>
  \<^verbatim>\<open>get_object_or_404(Message, id=message_id)\<close>. The id is the number the URL pattern
  captured.
\<close>

definition get_object_or_404 :: "db \<Rightarrow> nat \<Rightarrow> exn + message" where
  "get_object_or_404 st message_id =
     (case message_table st message_id of None \<Rightarrow> Inl Http404 | Some m \<Rightarrow> Inr m)"

text \<open>\<^verbatim>\<open>message.save()\<close> of the instance fetched under \<open>message_id\<close>: the row is rewritten.\<close>

definition Message_save :: "nat \<Rightarrow> message \<Rightarrow> db \<Rightarrow> db" where
  "Message_save message_id m st =
     st\<lparr>message_table := (message_table st)(message_id \<mapsto> m),
        save_log := save_log st @ [message_id]\<rparr>"

definition messages_info :: "string \<Rightarrow> db \<Rightarrow> db" where
  "messages_info msg st = st\<lparr>flash := flash st @ [msg]\<rparr>"

definition notification_send :: "request_user list \<Rightarrow> string \<Rightarrow> nat \<Rightarrow> db \<Rightarrow> db" where
  "notification_send us label message_id st = st\<lparr>notices := notices st @ [(us, label, message_id)]\<rparr>"

text \<open>
  The decorator \<^verbatim>\<open>login_required\<close>: an anonymous request is redirected to the login
  page (with the quoted path of the request as \<^verbatim>\<open>next\<close>) and the view is not called.
\<close>

definition login_required ::
  "module_globals \<Rightarrow> (request \<Rightarrow> db \<Rightarrow> outcome) \<Rightarrow> request \<Rightarrow> db \<Rightarrow> outcome" where
  "login_required g view_func rq st =
     (case user rq of
        AnonymousUser \<Rightarrow> (Inr (HttpResponseRedirect (login_url g @ ''?next='' @ path rq)), st)
      | LoggedIn u \<Rightarrow> view_func rq st)"


section \<open>The views\<close>

text \<open>
  Each view is the function the module defines (\<open>_body\<close>) wrapped by
  \<^verbatim>\<open>login_required\<close>, as the module rebinds its name. The clock read by
  \<^verbatim>\<open>datetime.datetime.now()\<close> is the argument \<open>now\<close>. A view returns its response, or
  the exception it raises, together with the database it leaves.
\<close>

definition inbox_body :: "manager \<Rightarrow> string \<Rightarrow> request \<Rightarrow> db \<Rightarrow> outcome" where
  "inbox_body mgr template_name rq st =
     (Inr (Rendered template_name (MessageList (inbox_for mgr (message_table st) (user rq)))), st)"

definition inbox :: "module_globals \<Rightarrow> manager \<Rightarrow> string \<Rightarrow> request \<Rightarrow> db \<Rightarrow> outcome" where
  "inbox g mgr template_name = login_required g (inbox_body mgr template_name)"

definition outbox_body :: "manager \<Rightarrow> string \<Rightarrow> request \<Rightarrow> db \<Rightarrow> outcome" where
  "outbox_body mgr template_name rq st =
     (Inr (Rendered template_name (MessageList (outbox_for mgr (message_table st) (user rq)))), st)"

definition outbox :: "module_globals \<Rightarrow> manager \<Rightarrow> string \<Rightarrow> request \<Rightarrow> db \<Rightarrow> outcome" where
  "outbox g mgr template_name = login_required g (outbox_body mgr template_name)"

definition trash_body :: "manager \<Rightarrow> string \<Rightarrow> request \<Rightarrow> db \<Rightarrow> outcome" where
  "trash_body mgr template_name rq st =
     (Inr (Rendered template_name (MessageList (trash_for mgr (message_table st) (user rq)))), st)"

definition trash :: "module_globals \<Rightarrow> manager \<Rightarrow> string \<Rightarrow> request \<Rightarrow> db \<Rightarrow> outcome" where
  "trash g mgr template_name = login_required g (trash_body mgr template_name)"

text \<open>\<^verbatim>\<open>u.profile.signature\<close>, and the list comprehension over the recipients.\<close>

definition signature :: "db \<Rightarrow> user \<Rightarrow> exn + string" where
  "signature st u = (case profile_signature st (pk u) of None \<Rightarrow> Inl DoesNotExist | Some sg \<Rightarrow> Inr sg)"

fun signatures :: "db \<Rightarrow> user list \<Rightarrow> exn + string list" where
  "signatures st [] = Inr []"
| "signatures st (u # us) =
     (case signature st u of
        Inl e \<Rightarrow> Inl e
      | Inr sg \<Rightarrow> (case signatures st us of Inl e \<Rightarrow> Inl e | Inr sgs \<Rightarrow> Inr (sg # sgs)))"

text \<open>The common tail of \<^verbatim>\<open>compose\<close>: the \<^verbatim>\<open>to\<close> field is filled and the form rendered.\<close>

definition compose_render :: "string \<Rightarrow> form \<Rightarrow> user list \<Rightarrow> db \<Rightarrow> outcome" where
  "compose_render template_name fm recipients st =
     (case signatures st recipients of
        Inl e \<Rightarrow> (Inl e, st)
      | Inr sgs \<Rightarrow>
          (Inr (Rendered template_name
                  (FormCtx (fm\<lparr>initial := (''to'', FStr (join ''<br>'' sgs)) # initial fm\<rparr>))), st))"

text \<open>What \<^verbatim>\<open>if not recipients: recipients = []\<close> leaves of the value \<^verbatim>\<open>clean\<close> returned.\<close>

fun recipients_of :: "form_value \<Rightarrow> user list" where
  "recipients_of (FList us) = us"
| "recipients_of (FTuple us) = us"
| "recipients_of v = []"

definition compose_body ::
  "module_globals \<Rightarrow> form_class \<Rightarrow> string option \<Rightarrow> string \<Rightarrow> string option \<Rightarrow>
   (user \<Rightarrow> pyobj) option \<Rightarrow> request \<Rightarrow> db \<Rightarrow> outcome" where
  "compose_body g fc recipient' template_name success_url rf rq st =
     (if method rq = ''POST'' then
        (let fm = \<lparr>data = Some (POST rq), filter_kw = rf, initial = []\<rparr> in
         if is_valid fc fm st then
           (let st1 = messages_info ''Message successfully sent.'' (form_save fc fm (user rq) None st);
                success_url1 = (case success_url of None \<Rightarrow> inbox_url g | Some url \<Rightarrow> url);
                success_url2 = (case GET rq ''next'' of None \<Rightarrow> success_url1 | Some n \<Rightarrow> n)
            in (Inr (HttpResponseRedirect success_url2), st1))
         else
           (case POST rq ''recipient'' of
              None \<Rightarrow> (Inl (KeyError ''recipient''), st)
            | Some v \<Rightarrow>
               (case clean (fields_recipient fc fm) (user_table st) (FStr v) of
                  Inl (ValidationError m) \<Rightarrow> compose_render template_name fm [] st
                | Inl e \<Rightarrow> (Inl e, st)
                | Inr r \<Rightarrow> compose_render template_name fm (recipients_of r) st)))
      else
        (let fm = \<lparr>data = None, filter_kw = None, initial = []\<rparr> in
         case (case recipient' of
                 None \<Rightarrow> Inr (fm, [])
               | Some r \<Rightarrow>
                  (case filter_pk_in (user_table st) (map strip (split r CHR ''+'')) of
                     Inl e \<Rightarrow> Inl e
                   | Inr us \<Rightarrow> Inr (fm\<lparr>initial := [(''recipient'', FList us)]\<rparr>, us))) of
           Inl e \<Rightarrow> (Inl e, st)
         | Inr (fm1, recipients) \<Rightarrow>
             if recipients = [] then (Inl Http404, st)
             else compose_render template_name fm1 recipients st))"

definition compose ::
  "module_globals \<Rightarrow> form_class \<Rightarrow> string option \<Rightarrow> string \<Rightarrow> string option \<Rightarrow>
   (user \<Rightarrow> pyobj) option \<Rightarrow> request \<Rightarrow> db \<Rightarrow> outcome" where
  "compose g fc recipient' template_name success_url rf =
     login_required g (compose_body g fc recipient' template_name success_url rf)"

definition reply_body ::
  "module_globals \<Rightarrow> form_class \<Rightarrow> nat \<Rightarrow> string \<Rightarrow> string option \<Rightarrow>
   (user \<Rightarrow> pyobj) option \<Rightarrow> request \<Rightarrow> db \<Rightarrow> outcome" where
  "reply_body g fc message_id template_name success_url rf rq st =
     (case get_object_or_404 st message_id of
        Inl e \<Rightarrow> (Inl e, st)
      | Inr parent \<Rightarrow>
          if \<not> is_user (sender parent) (user rq) \<and> \<not> is_user (recipient parent) (user rq)
          then (Inl Http404, st)
          else
            (let bound = \<lparr>data = Some (POST rq), filter_kw = rf, initial = []\<rparr>;
                 fresh = \<lparr>data = None, filter_kw = None,
                          initial = [(''subject'', FStr (''Re: '' @ subject parent)),
                                     (''recipient'', FList [sender parent])]\<rparr>
             in if method rq = ''POST'' \<and> is_valid fc bound st then
                  (let st1 = messages_info ''Message successfully sent.''
                               (form_save fc bound (user rq) (Some (message_id, parent)) st);
                       success_url1 = (case success_url of None \<Rightarrow> inbox_url g | Some url \<Rightarrow> url)
                   in (Inr (HttpResponseRedirect success_url1), st1))
                else
                  (let fm = (if method rq = ''POST'' then bound else fresh) in
                   case signature st (sender parent) of
                     Inl e \<Rightarrow> (Inl e, st)
                   | Inr sg \<Rightarrow>
                       (Inr (Rendered template_name
                               (FormCtx (fm\<lparr>initial := (''to'', FStr sg) # initial fm\<rparr>))), st))))"

definition reply ::
  "module_globals \<Rightarrow> form_class \<Rightarrow> nat \<Rightarrow> string \<Rightarrow> string option \<Rightarrow>
   (user \<Rightarrow> pyobj) option \<Rightarrow> request \<Rightarrow> db \<Rightarrow> outcome" where
  "reply g fc message_id template_name success_url rf =
     login_required g (reply_body g fc message_id template_name success_url rf)"

definition delete_body ::
  "module_globals \<Rightarrow> datetime \<Rightarrow> nat \<Rightarrow> string option \<Rightarrow> request \<Rightarrow> db \<Rightarrow> outcome" where
  "delete_body g now message_id success_url rq st =
     (case get_object_or_404 st message_id of
        Inl e \<Rightarrow> (Inl e, st)
      | Inr message0 \<Rightarrow>
         (let success_url1 = (case success_url of None \<Rightarrow> inbox_url g | Some url \<Rightarrow> url);
              success_url2 = (case GET rq ''next'' of None \<Rightarrow> success_url1 | Some n \<Rightarrow> n);
              (message1, deleted1) =
                 (if is_user (sender message0) (user rq)
                  then (message0\<lparr>sender_deleted_at := Some now\<rparr>, True) else (message0, False));
              (message2, deleted2) =
                 (if is_user (recipient message1) (user rq)
                  then (message1\<lparr>recipient_deleted_at := Some now\<rparr>, True)
                  else (message1, deleted1))
          in if deleted2 then
               (let st1 = Message_save message_id message2 st;
                    st2 = messages_info ''Message successfully deleted.'' st1;
                    st3 = (if notification g
                           then notification_send [user rq] ''messages_deleted'' message_id st2
                           else st2)
                in (Inr (HttpResponseRedirect success_url2), st3))
             else (Inl Http404, st)))"

definition delete ::
  "module_globals \<Rightarrow> datetime \<Rightarrow> nat \<Rightarrow> string option \<Rightarrow> request \<Rightarrow> db \<Rightarrow> outcome" where
  "delete g now message_id success_url = login_required g (delete_body g now message_id success_url)"

definition undelete_body ::
  "module_globals \<Rightarrow> nat \<Rightarrow> string option \<Rightarrow> request \<Rightarrow> db \<Rightarrow> outcome" where
  "undelete_body g message_id success_url rq st =
     (case get_object_or_404 st message_id of
        Inl e \<Rightarrow> (Inl e, st)
      | Inr message0 \<Rightarrow>
         (let success_url1 = (case success_url of None \<Rightarrow> inbox_url g | Some url \<Rightarrow> url);
              success_url2 = (case GET rq ''next'' of None \<Rightarrow> success_url1 | Some n \<Rightarrow> n);
              (message1, undeleted1) =
                 (if is_user (sender message0) (user rq)
                  then (message0\<lparr>sender_deleted_at := None\<rparr>, True) else (message0, False));
              (message2, undeleted2) =
                 (if is_user (recipient message1) (user rq)
                  then (message1\<lparr>recipient_deleted_at := None\<rparr>, True)
                  else (message1, undeleted1))
          in if undeleted2 then
               (let st1 = Message_save message_id message2 st;
                    st2 = messages_info ''Message successfully recovered.'' st1;
                    st3 = (if notification g
                           then notification_send [user rq] ''messages_recovered'' message_id st2
                           else st2)
                in (Inr (HttpResponseRedirect success_url2), st3))
             else (Inl Http404, st)))"

definition undelete ::
  "module_globals \<Rightarrow> nat \<Rightarrow> string option \<Rightarrow> request \<Rightarrow> db \<Rightarrow> outcome" where
  "undelete g message_id success_url = login_required g (undelete_body g message_id success_url)"

definition view_body :: "datetime \<Rightarrow> nat \<Rightarrow> string \<Rightarrow> request \<Rightarrow> db \<Rightarrow> outcome" where
  "view_body now message_id template_name rq st =
     (case get_object_or_404 st message_id of
        Inl e \<Rightarrow> (Inl e, st)
      | Inr message0 \<Rightarrow>
          if \<not> is_user (sender message0) (user rq) \<and> \<not> is_user (recipient message0) (user rq)
          then (Inl Http404, st)
          else if read_at message0 = None \<and> is_user (recipient message0) (user rq) then
            (let message1 = message0\<lparr>read_at := Some now\<rparr>
             in (Inr (Rendered template_name (MessageCtx message_id message1)),
                 Message_save message_id message1 st))
          else (Inr (Rendered template_name (MessageCtx message_id message0)), st))"

definition view ::
  "module_globals \<Rightarrow> datetime \<Rightarrow> nat \<Rightarrow> string \<Rightarrow> request \<Rightarrow> db \<Rightarrow> outcome" where
  "view g now message_id template_name = login_required g (view_body now message_id template_name)"


section \<open>Properties of the string primitives\<close>

declare str_nat.simps [simp del]

lemma is_digit_digit_char: "d < 10 \<Longrightarrow> is_digit (digit_char d)"
  by (simp add: is_digit_def digit_char_def)

lemma digit_val_digit_char: "d < 10 \<Longrightarrow> digit_val (digit_char d) = d"
  by (simp add: digit_val_def digit_char_def)

lemma is_digit_not_space: "is_digit c \<Longrightarrow> \<not> is_space c"
  by (auto simp: is_digit_def is_space_def)

lemma is_digit_not_sign: "is_digit c \<Longrightarrow> c \<noteq> CHR ''-'' \<and> c \<noteq> CHR ''+'' \<and> c \<noteq> CHR '',''"
  by (auto simp: is_digit_def)

lemma str_nat_digits: "list_all is_digit (str_nat n)"
  by (induction n rule: str_nat.induct) (subst str_nat.simps, simp add: is_digit_digit_char)

lemma str_nat_not_Nil: "str_nat n \<noteq> []"
  by (subst str_nat.simps) simp

lemma str_nat_value: "foldl (\<lambda>a c. 10 * a + digit_val c) 0 (str_nat n) = n"
  by (induction n rule: str_nat.induct) (subst str_nat.simps, simp add: digit_val_digit_char)

lemma digits_val_str_nat: "digits_val (str_nat n) = Some n"
  by (simp add: digits_val_def str_nat_digits str_nat_not_Nil str_nat_value)

lemma dropWhile_none: "\<forall>c\<in>set s. \<not> P c \<Longrightarrow> dropWhile P s = s"
  by (cases s) auto

lemma strip_no_space: "\<forall>c\<in>set s. \<not> is_space c \<Longrightarrow> strip s = s"
  by (simp add: strip_def dropWhile_none)

lemma str_int_chars: "c \<in> set (str_int i) \<Longrightarrow> c = CHR ''-'' \<or> is_digit c"
  using str_nat_digits by (auto simp: str_int_def list_all_iff split: if_splits)

lemma str_int_no_space: "\<forall>c\<in>set (str_int i). \<not> is_space c"
  using str_int_chars is_digit_not_space by (fastforce simp: is_space_def)

lemma str_int_no_comma: "CHR '','' \<notin> set (str_int i)"
  using str_int_chars [of "CHR '',''" i] is_digit_not_sign by auto

lemma str_int_not_Nil: "str_int i \<noteq> []"
  by (simp add: str_int_def str_nat_not_Nil)

lemma strip_str_int: "strip (str_int i) = str_int i"
  by (rule strip_no_space) (rule str_int_no_space)

lemma strip_space_str_int: "strip (CHR '' '' # str_int i) = str_int i"
proof -
  have "dropWhile is_space (CHR '' '' # str_int i) = dropWhile is_space (str_int i)"
    by (simp add: is_space_def)
  then have "strip (CHR '' '' # str_int i) = strip (str_int i)"
    by (simp add: strip_def)
  then show ?thesis by (simp add: strip_str_int)
qed

lemma py_int_str_int: "py_int (str_int i) = Some i"
proof (cases "i < 0")
  case True
  then show ?thesis
    by (simp add: py_int_def strip_str_int) (simp add: str_int_def digits_val_str_nat)
next
  case False
  obtain c cs where cs: "str_nat (nat i) = c # cs"
    using str_nat_not_Nil [of "nat i"] by (cases "str_nat (nat i)") auto
  have "is_digit c"
    using str_nat_digits [of "nat i"] cs by simp
  then have "c \<noteq> CHR ''-''" "c \<noteq> CHR ''+''"
    using is_digit_not_sign by auto
  moreover have "digits_val (c # cs) = Some (nat i)"
    using digits_val_str_nat [of "nat i"] cs by simp
  moreover have "strip (str_int i) = c # cs"
    using False cs strip_str_int [of i] by (simp add: str_int_def)
  ultimately show ?thesis
    using False by (simp add: py_int_def)
qed

lemma split_on_no_sep:
  "sep \<notin> set w \<Longrightarrow> split_on sep cur (w @ rest) = split_on sep (rev w @ cur) rest"
  by (induction w arbitrary: cur) auto

lemma split_on_join:
  "\<forall>x\<in>set (w # ws). CHR '','' \<notin> set x \<Longrightarrow>
   split_on CHR '','' cur (join '', '' (w # ws)) = (rev cur @ w) # map ((#) CHR '' '') ws"
proof (induction ws arbitrary: cur w)
  case Nil
  then show ?case
    using split_on_no_sep [of "CHR '',''" w cur "[]"] by simp
next
  case (Cons y ys)
  have "split_on CHR '','' cur (join '', '' (w # y # ys))
      = split_on CHR '','' (rev w @ cur) (CHR '','' # CHR '' '' # join '', '' (y # ys))"
    using Cons.prems split_on_no_sep [of "CHR '',''" w cur] by simp
  also have "\<dots> = (rev cur @ w) # split_on CHR '','' [CHR '' ''] (join '', '' (y # ys))"
    by simp
  also have "\<dots> = (rev cur @ w) # (CHR '' '' # y) # map ((#) CHR '' '') ys"
    using Cons.IH [of y "[CHR '' '']"] Cons.prems by simp
  finally show ?case by simp
qed

lemma split_join_pks:
  "map strip (split (join '', '' (map str_int (k # ks))) CHR '','') = map str_int (k # ks)"
proof -
  have "\<forall>x\<in>set (str_int k # map str_int ks). CHR '','' \<notin> set x"
    using str_int_no_comma by auto
  then have "split (join '', '' (map str_int (k # ks))) CHR '','' =
      str_int k # map ((#) CHR '' '') (map str_int ks)"
    using split_on_join [of "str_int k" "map str_int ks" "[]"] by (simp add: split_def)
  then show ?thesis
    by (simp add: strip_str_int strip_space_str_int)
qed


section \<open>Properties of \<^verbatim>\<open>clean\<close> and \<^verbatim>\<open>render\<close>\<close>

lemma pk_in_db_range: "in_db_range (pk u)"
  unfolding in_db_range_def pk_def
  using sint_ge [of "user_id u"] sint_lt [of "user_id u"] by simp

lemma pk_eq_iff: "pk u = pk v \<longleftrightarrow> user_id u = user_id v"
  unfolding pk_def by (auto intro: signed_word_eqI)

lemma set_set_xor: "set (set_xor a b) = (set a - set b) \<union> (set b - set a)"
  by (auto simp: set_xor_def)

lemma distinct_set_xor: "distinct a \<Longrightarrow> distinct b \<Longrightarrow> distinct (set_xor a b)"
  by (auto simp: set_xor_def)

lemma those_ints_Some:
  "\<forall>x\<in>set xs. py_int x \<noteq> None \<Longrightarrow> those_ints xs = Some (map (\<lambda>x. the (py_int x)) xs)"
  by (induction xs) auto

lemma set_ids_set:
  "set (py_set (map strip (filter (\<lambda>uid. strip uid \<noteq> []) (py_set (split s CHR '','')))))
     = {strip t |t. t \<in> set (split s CHR '','') \<and> strip t \<noteq> []}"
  by (auto simp: py_set_def)

text \<open>
  The loop over the users found: it returns the list as it is when the filter rejects
  nobody, and stops on the attribute \<^verbatim>\<open>gk\<close> at the first user the filter rejects.
\<close>

declare recipient_loop.simps [simp del]

lemma recipient_loop_accepts:
  "\<forall>u\<in>set (drop i us). rf u \<noteq> PyBool False \<Longrightarrow> recipient_loop rf i us acc = Inr (us, acc)"
proof (induction rf i us acc rule: recipient_loop.induct)
  case (1 rf i users invalid_users)
  show ?case
  proof (cases "i < length users")
    case True
    then have "users ! i \<in> set (drop i users)"
      by (metis Cons_nth_drop_Suc list.set_intros(1))
    then have ok: "rf (users ! i) \<noteq> PyBool False"
      using "1.prems" by blast
    have "\<forall>u\<in>set (drop (Suc i) users). rf u \<noteq> PyBool False"
      using "1.prems" by (metis True Cons_nth_drop_Suc list.set_intros(2))
    then have "recipient_loop rf (Suc i) users invalid_users = Inr (users, invalid_users)"
      using "1.IH"(2) [OF True refl ok] by simp
    then show ?thesis
      using True ok by (subst recipient_loop.simps) simp
  next
    case False
    then show ?thesis
      by (subst recipient_loop.simps) simp
  qed
qed

lemma recipient_loop_rejects:
  "\<exists>u\<in>set (drop i us). rf u = PyBool False \<Longrightarrow>
   recipient_loop rf i us acc = Inl (AttributeError ''gk'')"
proof (induction rf i us acc rule: recipient_loop.induct)
  case (1 rf i users invalid_users)
  have len: "i < length users"
    using "1.prems" by (cases "i < length users") auto
  show ?case
  proof (cases "rf (users ! i) = PyBool False")
    case True
    then show ?thesis
      using len by (subst recipient_loop.simps) (simp add: getattr_user_def)
  next
    case False
    have "drop i users = users ! i # drop (Suc i) users"
      using len by (simp add: Cons_nth_drop_Suc)
    then have "\<exists>u\<in>set (drop (Suc i) users). rf u = PyBool False"
      using "1.prems" False by auto
    then have "recipient_loop rf (Suc i) users invalid_users = Inl (AttributeError ''gk'')"
      using "1.IH"(2) [OF len refl False] by simp
    then show ?thesis
      using len False by (subst recipient_loop.simps) simp
  qed
qed

text \<open>
  On a non-empty string whose identifiers are all integer literals that the database
  takes, \<^verbatim>\<open>clean\<close> is decided by the users found, the list \<^verbatim>\<open>unknown_ids\<close> and the
  loop.
\<close>

lemma clean_lookup:
  assumes "s \<noteq> []"
    and ids_set: "ids_set = py_set (map strip (filter (\<lambda>uid. strip uid \<noteq> []) (py_set (split s CHR '',''))))"
    and parse: "\<forall>x\<in>set ids_set. case py_int x of None \<Rightarrow> False | Some k \<Rightarrow> in_db_range k"
    and found: "found = filter (\<lambda>u. \<exists>t\<in>set ids_set. py_int t = Some (pk u)) table"
    and unknown: "unknown = set_xor ids_set (py_set (map (\<lambda>u. str_int (pk u)) found))"
  shows "clean f table (FStr s) =
      (case (case recipient_filter f of
               None \<Rightarrow> Inr (found, [])
             | Some rf \<Rightarrow> recipient_loop rf 0 found []) of
         Inl e \<Rightarrow> Inl e
       | Inr (users', invalid_users) \<Rightarrow>
           if unknown \<noteq> [] \<or> invalid_users \<noteq> []
           then Inl (ValidationError (incorrect_message (unknown @ map py_str invalid_users)))
           else Inr (FList users'))"
proof -
  have some: "\<forall>x\<in>set ids_set. py_int x \<noteq> None"
    using parse by (auto split: option.splits)
  have range: "list_all in_db_range (map (\<lambda>x. the (py_int x)) ids_set)"
    using parse by (auto simp: list_all_iff split: option.splits)
  have member: "pk u \<in> set (map (\<lambda>x. the (py_int x)) ids_set) \<longleftrightarrow> (\<exists>t\<in>set ids_set. py_int t = Some (pk u))"
    for u :: user
    using some by force
  have "filter (\<lambda>u. pk u \<in> set (map (\<lambda>x. the (py_int x)) ids_set)) table = found"
    unfolding found by (rule filter_cong [OF refl]) (simp only: member)
  then have lookup: "filter_pk_in table ids_set = Inr found"
    unfolding filter_pk_in_def using those_ints_Some [OF some] range by simp
  show ?thesis
    using assms(1) lookup
    by (simp add: clean_def Field_clean_def in_EMPTY_VALUES_def clean_ids_def Let_def
        ids_set [symmetric] unknown [symmetric])
qed

text \<open>When the filter, if there is one, rejects none of the users found, the loop changes nothing.\<close>

lemma clean_accepting:
  assumes "s \<noteq> []"
    and ids_set: "ids_set = py_set (map strip (filter (\<lambda>uid. strip uid \<noteq> []) (py_set (split s CHR '',''))))"
    and parse: "\<forall>x\<in>set ids_set. case py_int x of None \<Rightarrow> False | Some k \<Rightarrow> in_db_range k"
    and found: "found = filter (\<lambda>u. \<exists>t\<in>set ids_set. py_int t = Some (pk u)) table"
    and unknown: "unknown = set_xor ids_set (py_set (map (\<lambda>u. str_int (pk u)) found))"
    and accepts: "\<forall>rf. recipient_filter f = Some rf \<longrightarrow> (\<forall>u\<in>set found. rf u \<noteq> PyBool False)"
  shows "clean f table (FStr s) =
      (if unknown \<noteq> [] then Inl (ValidationError (incorrect_message unknown)) else Inr (FList found))"
proof (cases "recipient_filter f")
  case None
  then show ?thesis
    using clean_lookup [OF assms(1) ids_set parse found unknown, of f] by simp
next
  case (Some rf)
  then have "recipient_loop rf 0 found [] = Inr (found, [])"
    using accepts recipient_loop_accepts [of 0 found rf "[]"] by simp
  then show ?thesis
    using Some clean_lookup [OF assms(1) ids_set parse found unknown, of f] by simp
qed

text \<open>
  C1 (amended). For every non-empty string whose trimmed non-empty identifiers are all
  integer literals that fit the database's signed 64-bit integers: let \<open>A\<close> be the set
  of trimmed non-empty identifiers, \<open>found\<close> the users of the table whose primary
  key one of them denotes, and \<open>B\<close> the pk-strings of the users found. \<^verbatim>\<open>clean\<close> takes
  as unknown the symmetric difference of \<open>A\<close> and \<open>B\<close> (the code's
  \<^verbatim>\<open>ids_set ^ set(...)\<close>). When it is non-empty and the \<^verbatim>\<open>recipient_filter\<close>, if there is
  one, rejects none of the users found, \<^verbatim>\<open>clean\<close> raises a \<^verbatim>\<open>ValidationError\<close> that names
  exactly its elements, each once; when it is empty and there is no
  \<^verbatim>\<open>recipient_filter\<close>, \<^verbatim>\<open>clean\<close> returns the list of the users found.
\<close>

theorem clean_unknown_ids:
  assumes "s \<noteq> []"
    and "\<forall>t \<in> set (split s CHR '',''). strip t \<noteq> [] \<longrightarrow>
           (case py_int (strip t) of None \<Rightarrow> False | Some k \<Rightarrow> in_db_range k)"
  shows "let A = {strip t |t. t \<in> set (split s CHR '','') \<and> strip t \<noteq> []};
             found = filter (\<lambda>u. \<exists>t\<in>A. py_int t = Some (pk u)) table;
             B = (\<lambda>u. str_int (pk u)) ` set found;
             U = (A - B) \<union> (B - A)
         in (U = {} \<and> recipient_filter f = None \<longrightarrow> clean f table (FStr s) = Inr (FList found))
          \<and> (U \<noteq> {} \<and> (\<forall>rf. recipient_filter f = Some rf \<longrightarrow> (\<forall>u\<in>set found. rf u \<noteq> PyBool False)) \<longrightarrow>
               (\<exists>ids. distinct ids \<and> set ids = U
                 \<and> clean f table (FStr s) = Inl (ValidationError (incorrect_message ids))))"
proof -
  define ids_set where
    "ids_set = py_set (map strip (filter (\<lambda>uid. strip uid \<noteq> []) (py_set (split s CHR '',''))))"
  define A where "A = {strip t |t. t \<in> set (split s CHR '','') \<and> strip t \<noteq> []}"
  define found where "found = filter (\<lambda>u. \<exists>t\<in>A. py_int t = Some (pk u)) table"
  define unknown where "unknown = set_xor ids_set (py_set (map (\<lambda>u. str_int (pk u)) found))"
  have A: "set ids_set = A"
    unfolding ids_set_def A_def by (rule set_ids_set)
  have parse: "\<forall>x\<in>set ids_set. case py_int x of None \<Rightarrow> False | Some k \<Rightarrow> in_db_range k"
    using assms(2) unfolding A A_def by auto
  have U: "set unknown = (A - (\<lambda>u. str_int (pk u)) ` set found) \<union> ((\<lambda>u. str_int (pk u)) ` set found - A)"
    unfolding unknown_def set_set_xor A by (simp add: py_set_def)
  have dist: "distinct unknown"
    unfolding unknown_def ids_set_def by (intro distinct_set_xor) (simp_all add: py_set_def)
  have found': "found = filter (\<lambda>u. \<exists>t\<in>set ids_set. py_int t = Some (pk u)) table"
    by (simp add: found_def A)
  have c: "clean f table (FStr s) =
      (if unknown \<noteq> [] then Inl (ValidationError (incorrect_message unknown)) else Inr (FList found))"
    if "\<forall>rf. recipient_filter f = Some rf \<longrightarrow> (\<forall>u\<in>set found. rf u \<noteq> PyBool False)"
    using assms(1) ids_set_def parse found' unknown_def that by (rule clean_accepting)
  show ?thesis
    unfolding Let_def A_def [symmetric] found_def [symmetric]
  proof (intro conjI impI)
    assume a: "A - (\<lambda>u. str_int (pk u)) ` set found \<union> ((\<lambda>u. str_int (pk u)) ` set found - A) = {}
        \<and> recipient_filter f = None"
    then have "set unknown = {}" unfolding U by simp
    then have "unknown = []" by simp
    moreover have "\<forall>rf. recipient_filter f = Some rf \<longrightarrow> (\<forall>u\<in>set found. rf u \<noteq> PyBool False)"
      using a by simp
    ultimately show "clean f table (FStr s) = Inr (FList found)" using c by simp
  next
    assume a: "A - (\<lambda>u. str_int (pk u)) ` set found \<union> ((\<lambda>u. str_int (pk u)) ` set found - A) \<noteq> {}
        \<and> (\<forall>rf. recipient_filter f = Some rf \<longrightarrow> (\<forall>u\<in>set found. rf u \<noteq> PyBool False))"
    then have "set unknown \<noteq> {}" unfolding U by simp
    then have "unknown \<noteq> []" by auto
    then have "clean f table (FStr s) = Inl (ValidationError (incorrect_message unknown))"
      using c a by simp
    then show "\<exists>ids. distinct ids
        \<and> set ids = A - (\<lambda>u. str_int (pk u)) ` set found \<union> ((\<lambda>u. str_int (pk u)) ` set found - A)
        \<and> clean f table (FStr s) = Inl (ValidationError (incorrect_message ids))"
      using dist U by blast
  qed
qed

text \<open>
  The claim as stated fails. The identifier \<^verbatim>\<open>01\<close> finds the user with pk 1, and the
  error names \<^verbatim>\<open>01\<close> and \<^verbatim>\<open>1\<close> (in no fixed order), where the set difference is
  \<^verbatim>\<open>01\<close> alone; an identifier that is not a number makes the lookup raise
  \<^verbatim>\<open>ValueError\<close>, and one beyond the database's integers \<^verbatim>\<open>OverflowError\<close>; and the
  empty string is returned as the empty string, not as the empty list of users.
\<close>

theorem clean_unknown_ids_counterexample:
  "clean \<lparr>required = True, recipient_filter = None\<rparr> [\<lparr>user_id = 1, username = ''ann''\<rparr>] (FStr ''01'')
     = Inl (ValidationError ''The following user IDs are incorrect: 01, 1'')
   \<and> clean \<lparr>required = True, recipient_filter = None\<rparr> [\<lparr>user_id = 1, username = ''ann''\<rparr>] (FStr ''ann'')
     = Inl ValueError
   \<and> clean \<lparr>required = True, recipient_filter = None\<rparr> [\<lparr>user_id = 1, username = ''ann''\<rparr>]
        (FStr ''9223372036854775808'')
     = Inl OverflowError
   \<and> clean \<lparr>required = False, recipient_filter = None\<rparr> [\<lparr>user_id = 1, username = ''ann''\<rparr>] (FStr '''')
     = Inr (FStr '''')"
proof -
  let ?f = "\<lparr>required = True, recipient_filter = None\<rparr>"
  let ?table = "[\<lparr>user_id = 1, username = ''ann''\<rparr>]"
  have a: "clean ?f ?table (FStr ''01'')
      = Inl (ValidationError ''The following user IDs are incorrect: 01, 1'')"
    by code_simp
  have b: "clean ?f ?table (FStr ''ann'') = Inl ValueError"
    by code_simp
  have "split ''9223372036854775808'' CHR '','' = [''9223372036854775808'']"
    by (simp add: split_def)
  moreover have "strip ''9223372036854775808'' = ''9223372036854775808''"
    by (simp add: strip_def is_space_def)
  moreover have "py_int ''9223372036854775808'' = Some 9223372036854775808"
    by (simp add: py_int_def strip_def is_space_def digits_val_def is_digit_def digit_val_def)
  ultimately have c: "clean ?f ?table (FStr ''9223372036854775808'') = Inl OverflowError"
    by (simp add: clean_def Field_clean_def in_EMPTY_VALUES_def clean_ids_def py_set_def
        filter_pk_in_def in_db_range_def)
  have d: "clean \<lparr>required = False, recipient_filter = None\<rparr> ?table (FStr '''') = Inr (FStr '''')"
    by code_simp
  show ?thesis
    by (intro conjI) (rule a b c d)+
qed

theorem clean_unknown_ids_witness:
  "''1, 7'' \<noteq> []
   \<and> list_all (\<lambda>t. strip t \<noteq> [] \<longrightarrow>
          (case py_int (strip t) of None \<Rightarrow> False | Some k \<Rightarrow> in_db_range k)) (split ''1, 7'' CHR '','')
   \<and> (let A = {strip t |t. t \<in> set (split ''1, 7'' CHR '','') \<and> strip t \<noteq> []};
            found = filter (\<lambda>u. \<exists>t\<in>A. py_int t = Some (pk u)) [\<lparr>user_id = 1, username = ''ann''\<rparr>];
            B = (\<lambda>u. str_int (pk u)) ` set found;
            U = (A - B) \<union> (B - A)
        in (U = {} \<and> recipient_filter \<lparr>required = True, recipient_filter = Some (\<lambda>u. PyNone)\<rparr> = None \<longrightarrow>
              clean \<lparr>required = True, recipient_filter = Some (\<lambda>u. PyNone)\<rparr>
                [\<lparr>user_id = 1, username = ''ann''\<rparr>] (FStr ''1, 7'') = Inr (FList found))
         \<and> (U \<noteq> {} \<and> (\<forall>rf. recipient_filter \<lparr>required = True, recipient_filter = Some (\<lambda>u. PyNone)\<rparr>
                             = Some rf \<longrightarrow> (\<forall>u\<in>set found. rf u \<noteq> PyBool False)) \<longrightarrow>
              (\<exists>ids. distinct ids \<and> set ids = U
                \<and> clean \<lparr>required = True, recipient_filter = Some (\<lambda>u. PyNone)\<rparr>
                    [\<lparr>user_id = 1, username = ''ann''\<rparr>] (FStr ''1, 7'')
                    = Inl (ValidationError (incorrect_message ids)))))
   \<and> clean \<lparr>required = True, recipient_filter = Some (\<lambda>u. PyNone)\<rparr> [\<lparr>user_id = 1, username = ''ann''\<rparr>]
         (FStr ''1, 7'') = Inl (ValidationError ''The following user IDs are incorrect: 7'')
   \<and> '' 1 ,'' \<noteq> []
   \<and> list_all (\<lambda>t. strip t \<noteq> [] \<longrightarrow>
          (case py_int (strip t) of None \<Rightarrow> False | Some k \<Rightarrow> in_db_range k)) (split '' 1 ,'' CHR '','')
   \<and> (let A = {strip t |t. t \<in> set (split '' 1 ,'' CHR '','') \<and> strip t \<noteq> []};
            found = filter (\<lambda>u. \<exists>t\<in>A. py_int t = Some (pk u)) [\<lparr>user_id = 1, username = ''ann''\<rparr>];
            B = (\<lambda>u. str_int (pk u)) ` set found;
            U = (A - B) \<union> (B - A)
        in (U = {} \<and> recipient_filter \<lparr>required = True, recipient_filter = None\<rparr> = None \<longrightarrow>
              clean \<lparr>required = True, recipient_filter = None\<rparr>
                [\<lparr>user_id = 1, username = ''ann''\<rparr>] (FStr '' 1 ,'') = Inr (FList found))
         \<and> (U \<noteq> {} \<and> (\<forall>rf. recipient_filter \<lparr>required = True, recipient_filter = None\<rparr>
                             = Some rf \<longrightarrow> (\<forall>u\<in>set found. rf u \<noteq> PyBool False)) \<longrightarrow>
              (\<exists>ids. distinct ids \<and> set ids = U
                \<and> clean \<lparr>required = True, recipient_filter = None\<rparr>
                    [\<lparr>user_id = 1, username = ''ann''\<rparr>] (FStr '' 1 ,'')
                    = Inl (ValidationError (incorrect_message ids)))))
   \<and> clean \<lparr>required = True, recipient_filter = None\<rparr> [\<lparr>user_id = 1, username = ''ann''\<rparr>]
         (FStr '' 1 ,'') = Inr (FList [\<lparr>user_id = 1, username = ''ann''\<rparr>])"
proof -
  have h1: "''1, 7'' \<noteq> []" by simp
  have h2: "\<forall>t \<in> set (split ''1, 7'' CHR '',''). strip t \<noteq> [] \<longrightarrow>
           (case py_int (strip t) of None \<Rightarrow> False | Some k \<Rightarrow> in_db_range k)"
    by code_simp
  have h3: "clean \<lparr>required = True, recipient_filter = Some (\<lambda>u. PyNone)\<rparr> [\<lparr>user_id = 1, username = ''ann''\<rparr>]
         (FStr ''1, 7'') = Inl (ValidationError ''The following user IDs are incorrect: 7'')"
    by code_simp
  have k1: "'' 1 ,'' \<noteq> []" by simp
  have k2: "\<forall>t \<in> set (split '' 1 ,'' CHR '',''). strip t \<noteq> [] \<longrightarrow>
           (case py_int (strip t) of None \<Rightarrow> False | Some k \<Rightarrow> in_db_range k)"
    by code_simp
  have k3: "clean \<lparr>required = True, recipient_filter = None\<rparr> [\<lparr>user_id = 1, username = ''ann''\<rparr>]
         (FStr '' 1 ,'') = Inr (FList [\<lparr>user_id = 1, username = ''ann''\<rparr>])"
    by code_simp
  show ?thesis
    unfolding list_all_iff
    using clean_unknown_ids [OF h1 h2, of "[\<lparr>user_id = 1, username = ''ann''\<rparr>]"
        "\<lparr>required = True, recipient_filter = Some (\<lambda>u. PyNone)\<rparr>"]
      clean_unknown_ids [OF k1 k2, of "[\<lparr>user_id = 1, username = ''ann''\<rparr>]"
        "\<lparr>required = True, recipient_filter = None\<rparr>"]
      h1 h2 h3 k1 k2 k3
    by blast
qed

text \<open>
  C10 (amended). On a false value (\<^verbatim>\<open>None\<close>, the empty string, the empty list or tuple)
  \<^verbatim>\<open>clean\<close> returns the empty string when the field is not required, and raises the
  base class's \<^verbatim>\<open>ValidationError\<close> when it is; a non-empty list or tuple is returned
  unchanged, whatever the user table and the \<^verbatim>\<open>recipient_filter\<close>, so that neither is
  consulted.
\<close>

theorem clean_edge_cases:
  "(py_not v \<longrightarrow>
      clean f table v =
        (if required f then Inl (ValidationError ''This field is required.'') else Inr (FStr [])))
   \<and> ((v = FList us \<or> v = FTuple us) \<and> us \<noteq> [] \<longrightarrow> clean f table v = Inr v)"
  by (cases v) (auto simp: clean_def Field_clean_def in_EMPTY_VALUES_def)

theorem clean_edge_cases_witness:
  "py_not (FStr '''')
   \<and> clean \<lparr>required = False, recipient_filter = None\<rparr> [] (FStr '''') = Inr (FStr '''')
   \<and> clean \<lparr>required = True, recipient_filter = Some (\<lambda>u. PyBool False)\<rparr> []
         (FList [\<lparr>user_id = 7, username = ''x''\<rparr>])
       = Inr (FList [\<lparr>user_id = 7, username = ''x''\<rparr>])"
  using clean_edge_cases [of "FStr ''''" "\<lparr>required = False, recipient_filter = None\<rparr>" "[]" "[]"]
    clean_edge_cases [of "FList [\<lparr>user_id = 7, username = ''x''\<rparr>]"
      "\<lparr>required = True, recipient_filter = Some (\<lambda>u. PyBool False)\<rparr>" "[]"
      "[\<lparr>user_id = 7, username = ''x''\<rparr>]"]
  by simp

text \<open>
  The claim as stated fails: a required field (the default) raises on the empty string,
  and the empty list, which is a list, comes back as the empty string.
\<close>

theorem clean_edge_cases_counterexample:
  "clean \<lparr>required = True, recipient_filter = None\<rparr> [] (FStr '''')
     = Inl (ValidationError ''This field is required.'')
   \<and> clean \<lparr>required = False, recipient_filter = None\<rparr> [] (FList []) = Inr (FStr '''')"
  by (simp add: clean_def Field_clean_def in_EMPTY_VALUES_def)

text \<open>
  C2. \<^verbatim>\<open>clean\<close> raises an \<^verbatim>\<open>AttributeError\<close>, not a \<^verbatim>\<open>ValidationError\<close>, as soon as the
  \<^verbatim>\<open>recipient_filter\<close> rejects a user: the loop reads \<^verbatim>\<open>r.gk\<close>, an attribute a user does
  not have.
\<close>

theorem clean_attribute_error:
  "clean \<lparr>required = True, recipient_filter = Some (\<lambda>u. PyBool False)\<rparr>
         [\<lparr>user_id = 1, username = ''ann''\<rparr>] (FStr ''1'')
     = Inl (AttributeError ''gk'')"
  by code_simp

text \<open>
  C3. With a \<^verbatim>\<open>recipient_filter\<close>, on a non-empty string of integer literals that fit
  the database's signed 64-bit integers (as the identifiers of existing users do): as
  soon as the filter returns \<^verbatim>\<open>False\<close> for one of the users found, \<^verbatim>\<open>clean\<close> raises an
  \<^verbatim>\<open>AttributeError\<close> (the claim has a \<^verbatim>\<open>ValidationError\<close> listing the rejected pks); when
  the filter rejects none of them and every identifier names a user, it returns the
  users found.
\<close>

theorem clean_filter_rejected:
  assumes "s \<noteq> []" and "recipient_filter f = Some rf"
    and "\<forall>t \<in> set (split s CHR '',''). strip t \<noteq> [] \<longrightarrow>
           (case py_int (strip t) of None \<Rightarrow> False | Some k \<Rightarrow> in_db_range k)"
  shows "let A = {strip t |t. t \<in> set (split s CHR '','') \<and> strip t \<noteq> []};
             found = filter (\<lambda>u. \<exists>t\<in>A. py_int t = Some (pk u)) table
         in ((\<exists>u\<in>set found. rf u = PyBool False) \<longrightarrow>
               clean f table (FStr s) = Inl (AttributeError ''gk''))
          \<and> ((\<forall>u\<in>set found. rf u \<noteq> PyBool False) \<and> A = (\<lambda>u. str_int (pk u)) ` set found \<longrightarrow>
               clean f table (FStr s) = Inr (FList found))"
proof -
  define ids_set where
    "ids_set = py_set (map strip (filter (\<lambda>uid. strip uid \<noteq> []) (py_set (split s CHR '',''))))"
  define A where "A = {strip t |t. t \<in> set (split s CHR '','') \<and> strip t \<noteq> []}"
  define found where "found = filter (\<lambda>u. \<exists>t\<in>A. py_int t = Some (pk u)) table"
  define unknown where "unknown = set_xor ids_set (py_set (map (\<lambda>u. str_int (pk u)) found))"
  have A: "set ids_set = A"
    unfolding ids_set_def A_def by (rule set_ids_set)
  have parse: "\<forall>x\<in>set ids_set. case py_int x of None \<Rightarrow> False | Some k \<Rightarrow> in_db_range k"
    using assms(3) unfolding A A_def by auto
  have U: "set unknown = (A - (\<lambda>u. str_int (pk u)) ` set found) \<union> ((\<lambda>u. str_int (pk u)) ` set found - A)"
    unfolding unknown_def set_set_xor A by (simp add: py_set_def)
  have "found = filter (\<lambda>u. \<exists>t\<in>set ids_set. py_int t = Some (pk u)) table"
    by (simp add: found_def A)
  with assms(1) ids_set_def parse have "clean f table (FStr s) =
      (case (case recipient_filter f of
               None \<Rightarrow> Inr (found, [])
             | Some rf \<Rightarrow> recipient_loop rf 0 found []) of
         Inl e \<Rightarrow> Inl e
       | Inr (users', invalid_users) \<Rightarrow>
           if unknown \<noteq> [] \<or> invalid_users \<noteq> []
           then Inl (ValidationError (incorrect_message (unknown @ map py_str invalid_users)))
           else Inr (FList users'))"
    using unknown_def by (rule clean_lookup)
  then have c: "clean f table (FStr s) =
      (case recipient_loop rf 0 found [] of
         Inl e \<Rightarrow> Inl e
       | Inr (users', invalid_users) \<Rightarrow>
           if unknown \<noteq> [] \<or> invalid_users \<noteq> []
           then Inl (ValidationError (incorrect_message (unknown @ map py_str invalid_users)))
           else Inr (FList users'))"
    using assms(2) by simp
  show ?thesis
    unfolding Let_def A_def [symmetric] found_def [symmetric]
  proof (intro conjI impI)
    assume "\<exists>u\<in>set found. rf u = PyBool False"
    then have "recipient_loop rf 0 found [] = Inl (AttributeError ''gk'')"
      using recipient_loop_rejects [of 0 found rf "[]"] by simp
    then show "clean f table (FStr s) = Inl (AttributeError ''gk'')"
      using c by simp
  next
    assume a: "(\<forall>u\<in>set found. rf u \<noteq> PyBool False) \<and> A = (\<lambda>u. str_int (pk u)) ` set found"
    then have "recipient_loop rf 0 found [] = Inr (found, [])"
      using recipient_loop_accepts [of 0 found rf "[]"] by simp
    moreover have "set unknown = {}"
      unfolding U using a by simp
    then have "unknown = []" by simp
    ultimately show "clean f table (FStr s) = Inr (FList found)"
      using c by simp
  qed
qed

theorem clean_filter_rejected_witness:
  "''1, 2'' \<noteq> []
   \<and> recipient_filter \<lparr>required = True, recipient_filter = Some (\<lambda>u. PyBool (pk u \<noteq> 2))\<rparr>
       = Some (\<lambda>u. PyBool (pk u \<noteq> 2))
   \<and> list_all (\<lambda>t. strip t \<noteq> [] \<longrightarrow>
          (case py_int (strip t) of None \<Rightarrow> False | Some k \<Rightarrow> in_db_range k)) (split ''1, 2'' CHR '','')
   \<and> (let A = {strip t |t. t \<in> set (split ''1, 2'' CHR '','') \<and> strip t \<noteq> []};
            found = filter (\<lambda>u. \<exists>t\<in>A. py_int t = Some (pk u))
                      [\<lparr>user_id = 1, username = ''ann''\<rparr>, \<lparr>user_id = 2, username = ''bob''\<rparr>]
        in ((\<exists>u\<in>set found. PyBool (pk u \<noteq> 2) = PyBool False) \<longrightarrow>
              clean \<lparr>required = True, recipient_filter = Some (\<lambda>u. PyBool (pk u \<noteq> 2))\<rparr>
                [\<lparr>user_id = 1, username = ''ann''\<rparr>, \<lparr>user_id = 2, username = ''bob''\<rparr>] (FStr ''1, 2'')
                = Inl (AttributeError ''gk''))
         \<and> ((\<forall>u\<in>set found. PyBool (pk u \<noteq> 2) \<noteq> PyBool False)
               \<and> A = (\<lambda>u. str_int (pk u)) ` set found \<longrightarrow>
              clean \<lparr>required = True, recipient_filter = Some (\<lambda>u. PyBool (pk u \<noteq> 2))\<rparr>
                [\<lparr>user_id = 1, username = ''ann''\<rparr>, \<lparr>user_id = 2, username = ''bob''\<rparr>] (FStr ''1, 2'')
                = Inr (FList found)))
   \<and> clean \<lparr>required = True, recipient_filter = Some (\<lambda>u. PyBool (pk u \<noteq> 2))\<rparr>
         [\<lparr>user_id = 1, username = ''ann''\<rparr>, \<lparr>user_id = 2, username = ''bob''\<rparr>] (FStr ''1, 2'')
       = Inl (AttributeError ''gk'')"
proof -
  let ?f = "\<lparr>required = True, recipient_filter = Some (\<lambda>u. PyBool (pk u \<noteq> 2))\<rparr>"
  have h1: "''1, 2'' \<noteq> []" by simp
  have h2: "recipient_filter ?f = Some (\<lambda>u. PyBool (pk u \<noteq> 2))" by simp
  have h3: "\<forall>t \<in> set (split ''1, 2'' CHR '',''). strip t \<noteq> [] \<longrightarrow>
           (case py_int (strip t) of None \<Rightarrow> False | Some k \<Rightarrow> in_db_range k)"
    by code_simp
  have h4: "clean ?f [\<lparr>user_id = 1, username = ''ann''\<rparr>, \<lparr>user_id = 2, username = ''bob''\<rparr>] (FStr ''1, 2'')
       = Inl (AttributeError ''gk'')"
    by code_simp
  show ?thesis
    unfolding list_all_iff
    using clean_filter_rejected [OF h1 h2 h3,
        of "[\<lparr>user_id = 1, username = ''ann''\<rparr>, \<lparr>user_id = 2, username = ''bob''\<rparr>]"] h1 h2 h3 h4
    by blast
qed

lemma join_not_Nil: "x \<noteq> [] \<Longrightarrow> join sep (x # xs) \<noteq> []"
  by (cases xs) auto

text \<open>
  C9. Round trip: for a non-empty list of users that are rows of the user table (whose
  primary keys are distinct), \<^verbatim>\<open>render\<close> hands the base class the pk-strings joined by
  \<^verbatim>\<open>', '\<close>, and \<^verbatim>\<open>clean\<close> without a \<^verbatim>\<open>recipient_filter\<close> returns for that string a
  list without repetition that contains exactly those users.
\<close>

theorem render_clean_roundtrip:
  assumes "us \<noteq> []" and "set us \<subseteq> set table" and "distinct (map pk table)"
    and "recipient_filter f = None"
  shows "render super_render name (FList us) attrs
           = super_render name (FStr (join '', '' (map (\<lambda>u. str_int (pk u)) us))) attrs
       \<and> (\<exists>found. clean f table (FStr (join '', '' (map (\<lambda>u. str_int (pk u)) us))) = Inr (FList found)
             \<and> set found = set us \<and> distinct found)"
proof -
  define s where "s = join '', '' (map (\<lambda>u. str_int (pk u)) us)"
  define ids_set where
    "ids_set = py_set (map strip (filter (\<lambda>uid. strip uid \<noteq> []) (py_set (split s CHR '',''))))"
  define found where "found = filter (\<lambda>u. \<exists>t\<in>set ids_set. py_int t = Some (pk u)) table"
  define unknown where "unknown = set_xor ids_set (py_set (map (\<lambda>u. str_int (pk u)) found))"
  obtain u0 rest where us: "us = u0 # rest"
    using assms(1) by (cases us) auto
  have s_eq: "s = join '', '' (map str_int (pk u0 # map pk rest))"
    by (simp add: s_def us comp_def)
  have "s \<noteq> []"
    unfolding s_eq using join_not_Nil [OF str_int_not_Nil] by simp
  have "map strip (split s CHR '','') = map str_int (map pk us)"
    unfolding s_eq using split_join_pks [of "pk u0" "map pk rest"] by (simp add: us)
  then have "strip ` set (split s CHR '','') = str_int ` pk ` set us"
    by (metis list.set_map)
  moreover have "[] \<notin> str_int ` pk ` set us"
  proof
    assume "[] \<in> str_int ` pk ` set us"
    then obtain u :: user where "[] = str_int (pk u)" by auto
    then show False using str_int_not_Nil [of "pk u"] by simp
  qed
  moreover have "{strip t |t. t \<in> set (split s CHR '','') \<and> strip t \<noteq> []}
      = strip ` set (split s CHR '','') - {[]}"
    by auto
  ultimately have A: "set ids_set = str_int ` pk ` set us"
    unfolding ids_set_def set_ids_set by simp
  have parse: "\<forall>x\<in>set ids_set. case py_int x of None \<Rightarrow> False | Some k \<Rightarrow> in_db_range k"
    unfolding A by (auto simp: py_int_str_int pk_in_db_range)
  have inj: "inj_on pk (set table)"
    using assms(3) by (simp add: distinct_map)
  have found_eq: "found = filter (\<lambda>u. pk u \<in> pk ` set us) table"
    unfolding found_def A by (rule filter_cong [OF refl]) (auto simp: py_int_str_int)
  have set_found: "set found = set us"
  proof
    show "set found \<subseteq> set us"
    proof
      fix v assume "v \<in> set found"
      then have v: "v \<in> set table" "pk v \<in> pk ` set us"
        by (auto simp: found_eq)
      then obtain u where u: "u \<in> set us" "pk v = pk u" by auto
      then have "v = u"
        using inj v(1) assms(2) by (auto dest: inj_onD)
      then show "v \<in> set us" using u by simp
    qed
    show "set us \<subseteq> set found"
      using assms(2) by (auto simp: found_eq)
  qed
  have "distinct table"
    using assms(3) by (simp add: distinct_map)
  then have dist: "distinct found"
    by (simp add: found_eq)
  have "set unknown = {}"
    unfolding unknown_def set_set_xor A by (auto simp: py_set_def set_found)
  then have "unknown = []" by simp
  moreover have "clean f table (FStr s) =
      (if unknown \<noteq> [] then Inl (ValidationError (incorrect_message unknown)) else Inr (FList found))"
    using \<open>s \<noteq> []\<close> ids_set_def parse found_def unknown_def
    by (rule clean_accepting) (simp add: assms(4))
  ultimately have "clean f table (FStr s) = Inr (FList found)" by simp
  then show ?thesis
    using set_found dist by (auto simp: render_def s_def)
qed

theorem render_clean_roundtrip_witness:
  "[\<lparr>user_id = 2, username = ''bob''\<rparr>, \<lparr>user_id = 10, username = ''cy''\<rparr>] \<noteq> []
   \<and> set [\<lparr>user_id = 2, username = ''bob''\<rparr>, \<lparr>user_id = 10, username = ''cy''\<rparr>]
       \<subseteq> set [\<lparr>user_id = 10, username = ''cy''\<rparr>, \<lparr>user_id = 1, username = ''ann''\<rparr>, \<lparr>user_id = 2, username = ''bob''\<rparr>]
   \<and> distinct (map pk [\<lparr>user_id = 10, username = ''cy''\<rparr>, \<lparr>user_id = 1, username = ''ann''\<rparr>,
                         \<lparr>user_id = 2, username = ''bob''\<rparr>])
   \<and> recipient_filter \<lparr>required = True, recipient_filter = None\<rparr> = None
   \<and> join '', '' (map (\<lambda>u. str_int (pk u))
          [\<lparr>user_id = 2, username = ''bob''\<rparr>, \<lparr>user_id = 10, username = ''cy''\<rparr>]) = ''2, 10''
   \<and> render (\<lambda>n v a. case v of FStr s \<Rightarrow> n @ ''='' @ s | _ \<Rightarrow> n) ''recipient''
         (FList [\<lparr>user_id = 2, username = ''bob''\<rparr>, \<lparr>user_id = 10, username = ''cy''\<rparr>]) ()
       = ''recipient=2, 10''
   \<and> (\<exists>found.
         clean \<lparr>required = True, recipient_filter = None\<rparr>
           [\<lparr>user_id = 10, username = ''cy''\<rparr>, \<lparr>user_id = 1, username = ''ann''\<rparr>, \<lparr>user_id = 2, username = ''bob''\<rparr>]
           (FStr ''2, 10'') = Inr (FList found)
         \<and> set found = set [\<lparr>user_id = 2, username = ''bob''\<rparr>, \<lparr>user_id = 10, username = ''cy''\<rparr>]
         \<and> distinct found)"
proof -
  let ?us = "[\<lparr>user_id = 2, username = ''bob''\<rparr>, \<lparr>user_id = 10, username = ''cy''\<rparr>]"
  let ?table = "[\<lparr>user_id = 10, username = ''cy''\<rparr>, \<lparr>user_id = 1, username = ''ann''\<rparr>,
                 \<lparr>user_id = 2, username = ''bob''\<rparr>]"
  let ?f = "\<lparr>required = True, recipient_filter = None\<rparr>"
  have h1: "?us \<noteq> []" by simp
  have h2: "set ?us \<subseteq> set ?table" by simp
  have h3: "distinct (map pk ?table)" by (simp add: pk_def)
  have h4: "recipient_filter ?f = None" by simp
  have j: "join '', '' (map (\<lambda>u. str_int (pk u)) ?us) = ''2, 10''" by code_simp
  show ?thesis
    using render_clean_roundtrip [OF h1 h2 h3 h4,
        of "\<lambda>n v a. case v of FStr s \<Rightarrow> n @ ''='' @ s | _ \<Rightarrow> n" "''recipient''" "()"]
      h1 h2 h3 h4
    unfolding j by simp
qed

section \<open>Properties of the views\<close>

lemma delete_logged_in:
  assumes "user rq = LoggedIn u" and "message_table st message_id = Some m"
  shows "delete g now message_id success_url rq st =
    (if user_eq (sender m) u \<or> user_eq (recipient m) u then
       (Inr (HttpResponseRedirect
              (case GET rq ''next'' of
                 None \<Rightarrow> (case success_url of None \<Rightarrow> inbox_url g | Some url \<Rightarrow> url)
               | Some n \<Rightarrow> n)),
        (if notification g then notification_send [user rq] ''messages_deleted'' message_id else id)
          (messages_info ''Message successfully deleted.''
            (Message_save message_id
               (m\<lparr>sender_deleted_at := if user_eq (sender m) u then Some now else sender_deleted_at m,
                  recipient_deleted_at :=
                    if user_eq (recipient m) u then Some now else recipient_deleted_at m\<rparr>) st)))
     else (Inl Http404, st))"
  using assms
  by (cases "user_eq (sender m) u"; cases "user_eq (recipient m) u")
    (simp_all add: delete_def login_required_def delete_body_def get_object_or_404_def)

lemma undelete_logged_in:
  assumes "user rq = LoggedIn u" and "message_table st message_id = Some m"
  shows "undelete g message_id success_url rq st =
    (if user_eq (sender m) u \<or> user_eq (recipient m) u then
       (Inr (HttpResponseRedirect
              (case GET rq ''next'' of
                 None \<Rightarrow> (case success_url of None \<Rightarrow> inbox_url g | Some url \<Rightarrow> url)
               | Some n \<Rightarrow> n)),
        (if notification g then notification_send [user rq] ''messages_recovered'' message_id else id)
          (messages_info ''Message successfully recovered.''
            (Message_save message_id
               (m\<lparr>sender_deleted_at := if user_eq (sender m) u then None else sender_deleted_at m,
                  recipient_deleted_at :=
                    if user_eq (recipient m) u then None else recipient_deleted_at m\<rparr>) st)))
     else (Inl Http404, st))"
  using assms
  by (cases "user_eq (sender m) u"; cases "user_eq (recipient m) u")
    (simp_all add: undelete_def login_required_def undelete_body_def get_object_or_404_def)

lemma view_logged_in:
  assumes "user rq = LoggedIn u" and "message_table st message_id = Some m"
  shows "view g now message_id template_name rq st =
    (if \<not> user_eq (sender m) u \<and> \<not> user_eq (recipient m) u then (Inl Http404, st)
     else if read_at m = None \<and> user_eq (recipient m) u then
       (Inr (Rendered template_name (MessageCtx message_id (m\<lparr>read_at := Some now\<rparr>))),
        Message_save message_id (m\<lparr>read_at := Some now\<rparr>) st)
     else (Inr (Rendered template_name (MessageCtx message_id m)), st))"
  using assms
  by (simp add: view_def login_required_def view_body_def get_object_or_404_def Let_def)

lemma not_found:
  assumes "user rq = LoggedIn u" and "message_table st message_id = None"
  shows "delete g now message_id success_url rq st = (Inl Http404, st)"
    and "undelete g message_id success_url rq st = (Inl Http404, st)"
    and "view g now message_id template_name rq st = (Inl Http404, st)"
  using assms
  by (simp_all add: delete_def undelete_def view_def login_required_def delete_body_def
      undelete_body_def view_body_def get_object_or_404_def)

lemma delete_frame:
  assumes "delete g now message_id success_url rq st = (Inr resp, st')"
  shows "(\<forall>k. k \<noteq> message_id \<longrightarrow> message_table st' k = message_table st k)
       \<and> (case message_table st message_id of
             None \<Rightarrow> message_table st' message_id = None
           | Some m \<Rightarrow> (\<exists>m'. message_table st' message_id = Some m'
                \<and> m'\<lparr>sender_deleted_at := sender_deleted_at m,
                      recipient_deleted_at := recipient_deleted_at m\<rparr> = m))"
proof (cases "user rq")
  case AnonymousUser
  then have "st' = st"
    using assms by (simp add: delete_def login_required_def)
  then show ?thesis by (simp split: option.splits)
next
  case (LoggedIn u)
  show ?thesis
  proof (cases "message_table st message_id")
    case None
    then show ?thesis
      using assms not_found(1) [OF LoggedIn None] by simp
  next
    case (Some m)
    show ?thesis
      using assms unfolding delete_logged_in [OF LoggedIn Some]
      by (auto simp: Some Message_save_def messages_info_def notification_send_def
          split: if_splits)
  qed
qed

lemma undelete_frame:
  assumes "undelete g message_id success_url rq st = (Inr resp, st')"
  shows "(\<forall>k. k \<noteq> message_id \<longrightarrow> message_table st' k = message_table st k)
       \<and> (case message_table st message_id of
             None \<Rightarrow> message_table st' message_id = None
           | Some m \<Rightarrow> (\<exists>m'. message_table st' message_id = Some m'
                \<and> m'\<lparr>sender_deleted_at := sender_deleted_at m,
                      recipient_deleted_at := recipient_deleted_at m\<rparr> = m))"
proof (cases "user rq")
  case AnonymousUser
  then have "st' = st"
    using assms by (simp add: undelete_def login_required_def)
  then show ?thesis by (simp split: option.splits)
next
  case (LoggedIn u)
  show ?thesis
  proof (cases "message_table st message_id")
    case None
    then show ?thesis
      using assms not_found(2) [OF LoggedIn None] by simp
  next
    case (Some m)
    show ?thesis
      using assms unfolding undelete_logged_in [OF LoggedIn Some]
      by (auto simp: Some Message_save_def messages_info_def notification_send_def
          split: if_splits)
  qed
qed

lemma compose_render_db: "snd (compose_render template_name fm recipients st) = st"
  by (simp add: compose_render_def split: sum.splits)

lemma compose_saves_only_valid_post:
  assumes "\<not> (method rq = ''POST'' \<and> is_valid fc \<lparr>data = Some (POST rq), filter_kw = rf, initial = []\<rparr> st)"
  shows "snd (compose g fc recipient' template_name success_url rf rq st) = st"
  using assms
  by (auto simp: compose_def login_required_def compose_body_def Let_def compose_render_db
      split: request_user.splits option.splits sum.splits exn.splits)

lemma reply_saves_only_valid_post:
  assumes "\<not> (method rq = ''POST'' \<and> is_valid fc \<lparr>data = Some (POST rq), filter_kw = rf, initial = []\<rparr> st)"
  shows "snd (reply g fc message_id template_name success_url rf rq st) = st"
  using assms
  by (auto simp: reply_def login_required_def reply_body_def Let_def
      split: request_user.splits option.splits sum.splits)

lemma reply_checks_permission:
  assumes "user rq = LoggedIn u" and "message_table st message_id = Some m"
    and "\<not> user_eq (sender m) u" and "\<not> user_eq (recipient m) u"
  shows "reply g fc message_id template_name success_url rf rq st = (Inl Http404, st)"
  using assms
  by (simp add: reply_def login_required_def reply_body_def get_object_or_404_def)






text \<open>
  C4 (amended). For every request of a logged-in user and every stored message,
  \<^verbatim>\<open>delete\<close> sets \<^verbatim>\<open>sender_deleted_at\<close> (when the user is the sender) and
  \<^verbatim>\<open>recipient_deleted_at\<close> (when the user is the recipient) to the current time and saves
  the message, which stays in the table, exactly when the user is the sender or the
  recipient; when the user is neither, it raises \<^verbatim>\<open>Http404\<close> and the database is unchanged
  (nothing is saved).
\<close>

theorem delete_soft_deletes:
  assumes "user rq = LoggedIn u" and "message_table st message_id = Some m"
  shows "(user_eq (sender m) u \<or> user_eq (recipient m) u \<longrightarrow>
            (\<exists>url st'. delete g now message_id success_url rq st = (Inr (HttpResponseRedirect url), st')
               \<and> message_table st' = (message_table st)(message_id \<mapsto>
                     m\<lparr>sender_deleted_at :=
                          if user_eq (sender m) u then Some now else sender_deleted_at m,
                        recipient_deleted_at :=
                          if user_eq (recipient m) u then Some now else recipient_deleted_at m\<rparr>)
               \<and> save_log st' = save_log st @ [message_id]))
       \<and> (\<not> user_eq (sender m) u \<and> \<not> user_eq (recipient m) u \<longrightarrow>
            delete g now message_id success_url rq st = (Inl Http404, st))"
  unfolding delete_logged_in [OF assms]
  by (simp add: Message_save_def messages_info_def notification_send_def)

theorem delete_soft_deletes_witness:
  "let ann = \<lparr>user_id = 1, username = ''ann''\<rparr>; bob = \<lparr>user_id = 2, username = ''bob''\<rparr>;
       m = \<lparr>sender = ann, recipient = bob, subject = ''hi'', body = ''hello'', sent_at = Some 3,
            read_at = None, replied_at = None, sender_deleted_at = None,
            recipient_deleted_at = None\<rparr>;
       st = \<lparr>user_table = [ann, bob], profile_signature = Map.empty, message_table = [1 \<mapsto> m],
             save_log = [], flash = [], notices = []\<rparr>;
       rq = \<lparr>user = LoggedIn bob, method = ''GET'', path = ''/messages/delete/1/'',
             GET = Map.empty, POST = Map.empty\<rparr>;
       g = \<lparr>notification = False, inbox_url = ''/messages/inbox/'', login_url = ''/accounts/login/''\<rparr>
   in user rq = LoggedIn bob \<and> message_table st 1 = Some m \<and> user_eq (recipient m) bob
      \<and> delete g 9 1 None rq st =
           (Inr (HttpResponseRedirect ''/messages/inbox/''),
            st\<lparr>message_table := [1 \<mapsto> m\<lparr>recipient_deleted_at := Some 9\<rparr>], save_log := [1],
               flash := [''Message successfully deleted.'']\<rparr>)
      \<and> delete g 9 1 None (rq\<lparr>user := LoggedIn \<lparr>user_id = 3, username = ''eve''\<rparr>\<rparr>) st
           = (Inl Http404, st)"
proof -
  let ?ann = "\<lparr>user_id = 1, username = ''ann''\<rparr>" and ?bob = "\<lparr>user_id = 2, username = ''bob''\<rparr>"
  let ?eve = "\<lparr>user_id = 3, username = ''eve''\<rparr>"
  let ?m = "\<lparr>sender = ?ann, recipient = ?bob, subject = ''hi'', body = ''hello'', sent_at = Some 3,
            read_at = None, replied_at = None, sender_deleted_at = None,
            recipient_deleted_at = None\<rparr>"
  let ?st = "\<lparr>user_table = [?ann, ?bob], profile_signature = Map.empty, message_table = [1 \<mapsto> ?m],
             save_log = [], flash = [], notices = []\<rparr>"
  let ?rq = "\<lparr>user = LoggedIn ?bob, method = ''GET'', path = ''/messages/delete/1/'',
             GET = Map.empty, POST = Map.empty\<rparr>"
  let ?g = "\<lparr>notification = False, inbox_url = ''/messages/inbox/'', login_url = ''/accounts/login/''\<rparr>"
  have h1: "user ?rq = LoggedIn ?bob" by simp
  have h1': "user (?rq\<lparr>user := LoggedIn ?eve\<rparr>) = LoggedIn ?eve" by simp
  have h2: "message_table ?st 1 = Some ?m" by simp
  show ?thesis
    using delete_soft_deletes [OF h1 h2, of ?g 9 None] delete_soft_deletes [OF h1' h2, of ?g 9 None]
    apply (simp add: Let_def user_eq_def pk_def)
    apply (simp add: delete_def login_required_def delete_body_def get_object_or_404_def
        Message_save_def messages_info_def user_eq_def pk_def)
    done
qed

text \<open>
  The claim as stated fails for a request that is not logged in: its user is neither the
  sender nor the recipient, and \<^verbatim>\<open>login_required\<close> answers with a redirect to the login
  page, not with \<^verbatim>\<open>Http404\<close>.
\<close>

theorem delete_soft_deletes_counterexample:
  "let ann = \<lparr>user_id = 1, username = ''ann''\<rparr>; bob = \<lparr>user_id = 2, username = ''bob''\<rparr>;
       m = \<lparr>sender = ann, recipient = bob, subject = ''hi'', body = ''hello'', sent_at = Some 3,
            read_at = None, replied_at = None, sender_deleted_at = None,
            recipient_deleted_at = None\<rparr>;
       st = \<lparr>user_table = [ann, bob], profile_signature = Map.empty, message_table = [1 \<mapsto> m],
             save_log = [], flash = [], notices = []\<rparr>;
       rq = \<lparr>user = AnonymousUser, method = ''GET'', path = ''/messages/delete/1/'',
             GET = Map.empty, POST = Map.empty\<rparr>;
       g = \<lparr>notification = False, inbox_url = ''/messages/inbox/'', login_url = ''/accounts/login/''\<rparr>
   in \<not> is_user (sender m) (user rq) \<and> \<not> is_user (recipient m) (user rq)
      \<and> delete g 9 1 None rq st
          = (Inr (HttpResponseRedirect ''/accounts/login/?next=/messages/delete/1/''), st)"
  by (simp add: Let_def delete_def login_required_def)

text \<open>
  C5 (amended). For every request of a logged-in user and every stored message, \<^verbatim>\<open>view\<close>
  sets \<^verbatim>\<open>read_at\<close> to the current time and saves exactly when the user is the recipient
  and \<^verbatim>\<open>read_at\<close> is \<^verbatim>\<open>None\<close>; in every other permitted access the database is
  unchanged; and when the user is neither sender nor recipient it raises \<^verbatim>\<open>Http404\<close>
  without changing the database.
\<close>

theorem view_marks_read:
  assumes "user rq = LoggedIn u" and "message_table st message_id = Some m"
  shows "(user_eq (recipient m) u \<and> read_at m = None \<longrightarrow>
            view g now message_id template_name rq st =
              (Inr (Rendered template_name (MessageCtx message_id (m\<lparr>read_at := Some now\<rparr>))),
               st\<lparr>message_table := (message_table st)(message_id \<mapsto> m\<lparr>read_at := Some now\<rparr>),
                  save_log := save_log st @ [message_id]\<rparr>))
       \<and> ((user_eq (sender m) u \<or> user_eq (recipient m) u)
            \<and> \<not> (user_eq (recipient m) u \<and> read_at m = None) \<longrightarrow>
            view g now message_id template_name rq st =
              (Inr (Rendered template_name (MessageCtx message_id m)), st))
       \<and> (\<not> user_eq (sender m) u \<and> \<not> user_eq (recipient m) u \<longrightarrow>
            view g now message_id template_name rq st = (Inl Http404, st))
       \<and> (save_log (snd (view g now message_id template_name rq st)) \<noteq> save_log st
            \<longleftrightarrow> user_eq (recipient m) u \<and> read_at m = None)"
  unfolding view_logged_in [OF assms]
  by (auto simp: Message_save_def)

theorem view_marks_read_witness:
  "let ann = \<lparr>user_id = 1, username = ''ann''\<rparr>; bob = \<lparr>user_id = 2, username = ''bob''\<rparr>;
       m = \<lparr>sender = ann, recipient = bob, subject = ''hi'', body = ''hello'', sent_at = Some 3,
            read_at = None, replied_at = None, sender_deleted_at = None,
            recipient_deleted_at = None\<rparr>;
       st = \<lparr>user_table = [ann, bob], profile_signature = Map.empty, message_table = [1 \<mapsto> m],
             save_log = [], flash = [], notices = []\<rparr>;
       rq = \<lparr>user = LoggedIn bob, method = ''GET'', path = ''/messages/view/1/'',
             GET = Map.empty, POST = Map.empty\<rparr>;
       g = \<lparr>notification = False, inbox_url = ''/messages/inbox/'', login_url = ''/accounts/login/''\<rparr>
   in user rq = LoggedIn bob \<and> message_table st 1 = Some m
      \<and> user_eq (recipient m) bob \<and> read_at m = None
      \<and> view g 9 1 ''django_messages/view.html'' rq st =
           (Inr (Rendered ''django_messages/view.html'' (MessageCtx 1 (m\<lparr>read_at := Some 9\<rparr>))),
            st\<lparr>message_table := [1 \<mapsto> m\<lparr>read_at := Some 9\<rparr>], save_log := [1]\<rparr>)
      \<and> view g 9 1 ''django_messages/view.html'' (rq\<lparr>user := LoggedIn ann\<rparr>) st =
           (Inr (Rendered ''django_messages/view.html'' (MessageCtx 1 m)), st)
      \<and> view g 9 1 ''django_messages/view.html''
           (rq\<lparr>user := LoggedIn \<lparr>user_id = 3, username = ''eve''\<rparr>\<rparr>) st = (Inl Http404, st)"
proof -
  let ?ann = "\<lparr>user_id = 1, username = ''ann''\<rparr>" and ?bob = "\<lparr>user_id = 2, username = ''bob''\<rparr>"
  let ?eve = "\<lparr>user_id = 3, username = ''eve''\<rparr>"
  let ?m = "\<lparr>sender = ?ann, recipient = ?bob, subject = ''hi'', body = ''hello'', sent_at = Some 3,
            read_at = None, replied_at = None, sender_deleted_at = None,
            recipient_deleted_at = None\<rparr>"
  let ?st = "\<lparr>user_table = [?ann, ?bob], profile_signature = Map.empty, message_table = [1 \<mapsto> ?m],
             save_log = [], flash = [], notices = []\<rparr>"
  let ?rq = "\<lparr>user = LoggedIn ?bob, method = ''GET'', path = ''/messages/view/1/'',
             GET = Map.empty, POST = Map.empty\<rparr>"
  let ?g = "\<lparr>notification = False, inbox_url = ''/messages/inbox/'', login_url = ''/accounts/login/''\<rparr>"
  have h1: "user ?rq = LoggedIn ?bob" by simp
  have h1': "user (?rq\<lparr>user := LoggedIn ?ann\<rparr>) = LoggedIn ?ann" by simp
  have h1'': "user (?rq\<lparr>user := LoggedIn ?eve\<rparr>) = LoggedIn ?eve" by simp
  have h2: "message_table ?st 1 = Some ?m" by simp
  show ?thesis
    using view_marks_read [OF h1 h2, of ?g 9 "''django_messages/view.html''"]
      view_marks_read [OF h1' h2, of ?g 9 "''django_messages/view.html''"]
      view_marks_read [OF h1'' h2, of ?g 9 "''django_messages/view.html''"]
    by (simp add: Let_def user_eq_def pk_def)
qed

text \<open>
  The claim as stated fails for a request that is not logged in, which is redirected to
  the login page instead of raising \<^verbatim>\<open>Http404\<close>.
\<close>

theorem view_marks_read_counterexample:
  "let ann = \<lparr>user_id = 1, username = ''ann''\<rparr>; bob = \<lparr>user_id = 2, username = ''bob''\<rparr>;
       m = \<lparr>sender = ann, recipient = bob, subject = ''hi'', body = ''hello'', sent_at = Some 3,
            read_at = None, replied_at = None, sender_deleted_at = None,
            recipient_deleted_at = None\<rparr>;
       st = \<lparr>user_table = [ann, bob], profile_signature = Map.empty, message_table = [1 \<mapsto> m],
             save_log = [], flash = [], notices = []\<rparr>;
       rq = \<lparr>user = AnonymousUser, method = ''GET'', path = ''/messages/view/1/'',
             GET = Map.empty, POST = Map.empty\<rparr>;
       g = \<lparr>notification = False, inbox_url = ''/messages/inbox/'', login_url = ''/accounts/login/''\<rparr>
   in \<not> is_user (sender m) (user rq) \<and> \<not> is_user (recipient m) (user rq)
      \<and> view g 9 1 ''django_messages/view.html'' rq st
          = (Inr (HttpResponseRedirect ''/accounts/login/?next=/messages/view/1/''), st)"
  by (simp add: Let_def view_def login_required_def)

text \<open>
  C7. Whenever \<^verbatim>\<open>delete\<close> or \<^verbatim>\<open>undelete\<close> returns a response, every other message of
  the table is unchanged, and the targeted message, if there is one, is still there and
  differs from what it was in its two soft-delete markers at most.
\<close>

theorem delete_undelete_only_markers:
  assumes "delete g now message_id success_url rq st = (Inr resp, st')
         \<or> undelete g message_id success_url rq st = (Inr resp, st')"
  shows "(\<forall>k. k \<noteq> message_id \<longrightarrow> message_table st' k = message_table st k)
       \<and> (case message_table st message_id of
             None \<Rightarrow> message_table st' message_id = None
           | Some m \<Rightarrow> (\<exists>m'. message_table st' message_id = Some m'
                \<and> m'\<lparr>sender_deleted_at := sender_deleted_at m,
                      recipient_deleted_at := recipient_deleted_at m\<rparr> = m))"
  using assms delete_frame undelete_frame by blast

theorem delete_undelete_only_markers_witness:
  "let ann = \<lparr>user_id = 1, username = ''ann''\<rparr>; bob = \<lparr>user_id = 2, username = ''bob''\<rparr>;
       m = \<lparr>sender = ann, recipient = bob, subject = ''hi'', body = ''hello'', sent_at = Some 3,
            read_at = Some 4, replied_at = None, sender_deleted_at = None,
            recipient_deleted_at = Some 5\<rparr>;
       m2 = \<lparr>sender = bob, recipient = ann, subject = ''re'', body = ''bye'', sent_at = Some 6,
            read_at = None, replied_at = None, sender_deleted_at = None,
            recipient_deleted_at = None\<rparr>;
       st = \<lparr>user_table = [ann, bob], profile_signature = Map.empty,
             message_table = [1 \<mapsto> m, 2 \<mapsto> m2], save_log = [], flash = [], notices = []\<rparr>;
       rq = \<lparr>user = LoggedIn ann, method = ''GET'', path = ''/messages/delete/1/'',
             GET = Map.empty, POST = Map.empty\<rparr>;
       rq2 = \<lparr>user = LoggedIn bob, method = ''GET'', path = ''/messages/undelete/1/'',
             GET = Map.empty, POST = Map.empty\<rparr>;
       g = \<lparr>notification = True, inbox_url = ''/messages/inbox/'', login_url = ''/accounts/login/''\<rparr>;
       st1 = st\<lparr>message_table := [1 \<mapsto> m\<lparr>sender_deleted_at := Some 9\<rparr>, 2 \<mapsto> m2], save_log := [1],
                flash := [''Message successfully deleted.''],
                notices := [([LoggedIn ann], ''messages_deleted'', 1)]\<rparr>;
       st2 = st\<lparr>message_table := [1 \<mapsto> m\<lparr>recipient_deleted_at := None\<rparr>, 2 \<mapsto> m2], save_log := [1],
                flash := [''Message successfully recovered.''],
                notices := [([LoggedIn bob], ''messages_recovered'', 1)]\<rparr>
   in delete g 9 1 None rq st = (Inr (HttpResponseRedirect ''/messages/inbox/''), st1)
      \<and> message_table st1 2 = message_table st 2
      \<and> (\<exists>m'. message_table st1 1 = Some m'
            \<and> m'\<lparr>sender_deleted_at := sender_deleted_at m,
                  recipient_deleted_at := recipient_deleted_at m\<rparr> = m)
      \<and> undelete g 1 None rq2 st = (Inr (HttpResponseRedirect ''/messages/inbox/''), st2)
      \<and> message_table st2 2 = message_table st 2
      \<and> (\<exists>m'. message_table st2 1 = Some m'
            \<and> m'\<lparr>sender_deleted_at := sender_deleted_at m,
                  recipient_deleted_at := recipient_deleted_at m\<rparr> = m)"
proof -
  let ?ann = "\<lparr>user_id = 1, username = ''ann''\<rparr>" and ?bob = "\<lparr>user_id = 2, username = ''bob''\<rparr>"
  let ?m = "\<lparr>sender = ?ann, recipient = ?bob, subject = ''hi'', body = ''hello'', sent_at = Some 3,
            read_at = Some 4, replied_at = None, sender_deleted_at = None,
            recipient_deleted_at = Some 5\<rparr>"
  let ?m2 = "\<lparr>sender = ?bob, recipient = ?ann, subject = ''re'', body = ''bye'', sent_at = Some 6,
            read_at = None, replied_at = None, sender_deleted_at = None,
            recipient_deleted_at = None\<rparr>"
  let ?st = "\<lparr>user_table = [?ann, ?bob], profile_signature = Map.empty,
             message_table = [1 \<mapsto> ?m, 2 \<mapsto> ?m2], save_log = [], flash = [], notices = []\<rparr>"
  let ?rq = "\<lparr>user = LoggedIn ?ann, method = ''GET'', path = ''/messages/delete/1/'',
             GET = Map.empty, POST = Map.empty\<rparr>"
  let ?rq2 = "\<lparr>user = LoggedIn ?bob, method = ''GET'', path = ''/messages/undelete/1/'',
             GET = Map.empty, POST = Map.empty\<rparr>"
  let ?g = "\<lparr>notification = True, inbox_url = ''/messages/inbox/'', login_url = ''/accounts/login/''\<rparr>"
  let ?st1 = "?st\<lparr>message_table := [1 \<mapsto> ?m\<lparr>sender_deleted_at := Some 9\<rparr>, 2 \<mapsto> ?m2], save_log := [1],
                flash := [''Message successfully deleted.''],
                notices := [([LoggedIn ?ann], ''messages_deleted'', 1)]\<rparr>"
  let ?st2 = "?st\<lparr>message_table := [1 \<mapsto> ?m\<lparr>recipient_deleted_at := None\<rparr>, 2 \<mapsto> ?m2], save_log := [1],
                flash := [''Message successfully recovered.''],
                notices := [([LoggedIn ?bob], ''messages_recovered'', 1)]\<rparr>"
  have run: "delete ?g 9 1 None ?rq ?st = (Inr (HttpResponseRedirect ''/messages/inbox/''), ?st1)"
    by (simp add: delete_def login_required_def delete_body_def get_object_or_404_def
        Message_save_def messages_info_def notification_send_def user_eq_def pk_def fun_upd_twist)
  have run2: "undelete ?g 1 None ?rq2 ?st = (Inr (HttpResponseRedirect ''/messages/inbox/''), ?st2)"
    by (simp add: undelete_def login_required_def undelete_body_def get_object_or_404_def
        Message_save_def messages_info_def notification_send_def user_eq_def pk_def fun_upd_twist)
  show ?thesis
    using delete_undelete_only_markers [OF disjI1 [OF run]]
      delete_undelete_only_markers [OF disjI2 [OF run2]] run run2
    by (simp add: Let_def)
qed

lemma list_views_logged_in:
  assumes "user rq = LoggedIn u"
  shows "inbox g mgr template_name rq st
           = (Inr (Rendered template_name (MessageList (inbox_for mgr (message_table st) (user rq)))), st)"
    and "outbox g mgr template_name rq st
           = (Inr (Rendered template_name (MessageList (outbox_for mgr (message_table st) (user rq)))), st)"
    and "trash g mgr template_name rq st
           = (Inr (Rendered template_name (MessageList (trash_for mgr (message_table st) (user rq)))), st)"
  using assms
  by (simp_all add: inbox_def outbox_def trash_def login_required_def inbox_body_def
      outbox_body_def trash_body_def)

lemma compose_valid_post:
  assumes "user rq = LoggedIn u" and "method rq = ''POST''"
    and "is_valid fc \<lparr>data = Some (POST rq), filter_kw = rf, initial = []\<rparr> st"
  shows "compose g fc recipient' template_name success_url rf rq st =
    (Inr (HttpResponseRedirect
           (case GET rq ''next'' of
              None \<Rightarrow> (case success_url of None \<Rightarrow> inbox_url g | Some url \<Rightarrow> url)
            | Some n \<Rightarrow> n)),
     messages_info ''Message successfully sent.''
       (form_save fc \<lparr>data = Some (POST rq), filter_kw = rf, initial = []\<rparr> (user rq) None st))"
  using assms by (simp add: compose_def login_required_def compose_body_def)

lemma reply_valid_post:
  assumes "user rq = LoggedIn u" and "message_table st message_id = Some m"
    and "user_eq (sender m) u \<or> user_eq (recipient m) u"
    and "method rq = ''POST''"
    and "is_valid fc \<lparr>data = Some (POST rq), filter_kw = rf, initial = []\<rparr> st"
  shows "reply g fc message_id template_name success_url rf rq st =
    (Inr (HttpResponseRedirect (case success_url of None \<Rightarrow> inbox_url g | Some url \<Rightarrow> url)),
     messages_info ''Message successfully sent.''
       (form_save fc \<lparr>data = Some (POST rq), filter_kw = rf, initial = []\<rparr> (user rq)
          (Some (message_id, m)) st))"
  using assms
  by (auto simp: reply_def login_required_def reply_body_def get_object_or_404_def)

text \<open>
  C6 (amended). The module has eight view handlers. For a logged-in user and a stored
  message: \<^verbatim>\<open>delete\<close> and \<^verbatim>\<open>undelete\<close> check that the user is the sender or the recipient
  (\<^verbatim>\<open>Http404\<close> otherwise, with the database unchanged), mutate the soft-delete markers
  and save the message; \<^verbatim>\<open>view\<close> makes the same check, and mutates \<^verbatim>\<open>read_at\<close> and saves
  only when the recipient opens an unread message; \<^verbatim>\<open>reply\<close> makes the same check, and
  saves, through the form, only for a \<^verbatim>\<open>POST\<close> whose form is valid; \<^verbatim>\<open>compose\<close> makes no
  such check, and saves, through the form, only for a \<^verbatim>\<open>POST\<close> whose form is valid;
  \<^verbatim>\<open>inbox\<close>, \<^verbatim>\<open>outbox\<close> and \<^verbatim>\<open>trash\<close> make no check, mutate nothing and save nothing.
\<close>

theorem handlers_check_mutate_save:
  assumes "user rq = LoggedIn u" and "message_table st message_id = Some m"
  shows
   "let permitted = (user_eq (sender m) u \<or> user_eq (recipient m) u);
        bound = \<lparr>data = Some (POST rq), filter_kw = rf, initial = []\<rparr>;
        valid_post = (method rq = ''POST'' \<and> is_valid fc bound st);
        composed = compose g fc recipient' template_name success_url rf rq st;
        replied = reply g fc message_id template_name success_url rf rq st;
        deleted = delete g now message_id success_url rq st;
        undeleted = undelete g message_id success_url rq st;
        viewed = view g now message_id template_name rq st
    in inbox g mgr template_name rq st
         = (Inr (Rendered template_name (MessageList (inbox_for mgr (message_table st) (user rq)))), st)
     \<and> outbox g mgr template_name rq st
         = (Inr (Rendered template_name (MessageList (outbox_for mgr (message_table st) (user rq)))), st)
     \<and> trash g mgr template_name rq st
         = (Inr (Rendered template_name (MessageList (trash_for mgr (message_table st) (user rq)))), st)
     \<and> (valid_post \<longrightarrow>
           (\<exists>url. composed = (Inr (HttpResponseRedirect url),
              messages_info ''Message successfully sent.'' (form_save fc bound (user rq) None st))))
     \<and> (\<not> valid_post \<longrightarrow> snd composed = st)
     \<and> (\<not> permitted \<longrightarrow> replied = (Inl Http404, st))
     \<and> (permitted \<and> valid_post \<longrightarrow>
           (\<exists>url. replied = (Inr (HttpResponseRedirect url),
              messages_info ''Message successfully sent.''
                (form_save fc bound (user rq) (Some (message_id, m)) st))))
     \<and> (permitted \<and> \<not> valid_post \<longrightarrow> snd replied = st)
     \<and> (\<not> permitted \<longrightarrow> deleted = (Inl Http404, st))
     \<and> (permitted \<longrightarrow>
           (\<exists>url. fst deleted = Inr (HttpResponseRedirect url))
           \<and> message_table (snd deleted) = (message_table st)(message_id \<mapsto>
                 m\<lparr>sender_deleted_at :=
                      if user_eq (sender m) u then Some now else sender_deleted_at m,
                    recipient_deleted_at :=
                      if user_eq (recipient m) u then Some now else recipient_deleted_at m\<rparr>)
           \<and> save_log (snd deleted) = save_log st @ [message_id])
     \<and> (\<not> permitted \<longrightarrow> undeleted = (Inl Http404, st))
     \<and> (permitted \<longrightarrow>
           (\<exists>url. fst undeleted = Inr (HttpResponseRedirect url))
           \<and> message_table (snd undeleted) = (message_table st)(message_id \<mapsto>
                 m\<lparr>sender_deleted_at :=
                      if user_eq (sender m) u then None else sender_deleted_at m,
                    recipient_deleted_at :=
                      if user_eq (recipient m) u then None else recipient_deleted_at m\<rparr>)
           \<and> save_log (snd undeleted) = save_log st @ [message_id])
     \<and> (\<not> permitted \<longrightarrow> viewed = (Inl Http404, st))
     \<and> (user_eq (recipient m) u \<and> read_at m = None \<longrightarrow>
           fst viewed = Inr (Rendered template_name (MessageCtx message_id (m\<lparr>read_at := Some now\<rparr>)))
           \<and> message_table (snd viewed) = (message_table st)(message_id \<mapsto> m\<lparr>read_at := Some now\<rparr>)
           \<and> save_log (snd viewed) = save_log st @ [message_id])
     \<and> (permitted \<and> \<not> (user_eq (recipient m) u \<and> read_at m = None) \<longrightarrow>
           viewed = (Inr (Rendered template_name (MessageCtx message_id m)), st))"
proof -
  note u = assms(1) and m = assms(2)
  let ?bound = "\<lparr>data = Some (POST rq), filter_kw = rf, initial = []\<rparr>"
  let ?permitted = "user_eq (sender m) u \<or> user_eq (recipient m) u"
  let ?valid_post = "method rq = ''POST'' \<and> is_valid fc ?bound st"
  have compose1: "?valid_post \<longrightarrow>
      (\<exists>url. compose g fc recipient' template_name success_url rf rq st
         = (Inr (HttpResponseRedirect url),
            messages_info ''Message successfully sent.'' (form_save fc ?bound (user rq) None st)))"
    using compose_valid_post [OF u] by blast
  have compose2: "\<not> ?valid_post \<longrightarrow> snd (compose g fc recipient' template_name success_url rf rq st) = st"
    using compose_saves_only_valid_post by blast
  have reply1: "\<not> ?permitted \<longrightarrow>
      reply g fc message_id template_name success_url rf rq st = (Inl Http404, st)"
    using reply_checks_permission [OF u m] by blast
  have reply2: "?permitted \<and> ?valid_post \<longrightarrow>
      (\<exists>url. reply g fc message_id template_name success_url rf rq st
         = (Inr (HttpResponseRedirect url),
            messages_info ''Message successfully sent.''
              (form_save fc ?bound (user rq) (Some (message_id, m)) st)))"
    using reply_valid_post [OF u m] by blast
  have reply3: "?permitted \<and> \<not> ?valid_post \<longrightarrow>
      snd (reply g fc message_id template_name success_url rf rq st) = st"
    using reply_saves_only_valid_post by blast
  have del: "(\<not> ?permitted \<longrightarrow> delete g now message_id success_url rq st = (Inl Http404, st))
     \<and> (?permitted \<longrightarrow>
           (\<exists>url. fst (delete g now message_id success_url rq st) = Inr (HttpResponseRedirect url))
           \<and> message_table (snd (delete g now message_id success_url rq st))
                = (message_table st)(message_id \<mapsto>
                 m\<lparr>sender_deleted_at :=
                      if user_eq (sender m) u then Some now else sender_deleted_at m,
                    recipient_deleted_at :=
                      if user_eq (recipient m) u then Some now else recipient_deleted_at m\<rparr>)
           \<and> save_log (snd (delete g now message_id success_url rq st)) = save_log st @ [message_id])"
    unfolding delete_logged_in [OF u m]
    by (simp add: Message_save_def messages_info_def notification_send_def)
  have undel: "(\<not> ?permitted \<longrightarrow> undelete g message_id success_url rq st = (Inl Http404, st))
     \<and> (?permitted \<longrightarrow>
           (\<exists>url. fst (undelete g message_id success_url rq st) = Inr (HttpResponseRedirect url))
           \<and> message_table (snd (undelete g message_id success_url rq st))
                = (message_table st)(message_id \<mapsto>
                 m\<lparr>sender_deleted_at :=
                      if user_eq (sender m) u then None else sender_deleted_at m,
                    recipient_deleted_at :=
                      if user_eq (recipient m) u then None else recipient_deleted_at m\<rparr>)
           \<and> save_log (snd (undelete g message_id success_url rq st)) = save_log st @ [message_id])"
    unfolding undelete_logged_in [OF u m]
    by (simp add: Message_save_def messages_info_def notification_send_def)
  have vw: "(\<not> ?permitted \<longrightarrow> view g now message_id template_name rq st = (Inl Http404, st))
     \<and> (user_eq (recipient m) u \<and> read_at m = None \<longrightarrow>
           fst (view g now message_id template_name rq st)
             = Inr (Rendered template_name (MessageCtx message_id (m\<lparr>read_at := Some now\<rparr>)))
           \<and> message_table (snd (view g now message_id template_name rq st))
             = (message_table st)(message_id \<mapsto> m\<lparr>read_at := Some now\<rparr>)
           \<and> save_log (snd (view g now message_id template_name rq st)) = save_log st @ [message_id])
     \<and> (?permitted \<and> \<not> (user_eq (recipient m) u \<and> read_at m = None) \<longrightarrow>
           view g now message_id template_name rq st
             = (Inr (Rendered template_name (MessageCtx message_id m)), st))"
    unfolding view_logged_in [OF u m]
    by (auto simp: Message_save_def)
  show ?thesis
    unfolding Let_def
    using list_views_logged_in [OF u, of g mgr template_name st]
      compose1 compose2 reply1 reply2 reply3 del undel vw
    by (intro conjI) blast+
qed

theorem handlers_check_mutate_save_witness:
  "let ann = \<lparr>user_id = 1, username = ''ann''\<rparr>; bob = \<lparr>user_id = 2, username = ''bob''\<rparr>;
       m = \<lparr>sender = ann, recipient = bob, subject = ''hi'', body = ''hello'', sent_at = Some 3,
            read_at = None, replied_at = None, sender_deleted_at = None,
            recipient_deleted_at = None\<rparr>;
       st = \<lparr>user_table = [ann, bob], profile_signature = [1 \<mapsto> ''-- ann'', 2 \<mapsto> ''-- bob''],
             message_table = [1 \<mapsto> m], save_log = [], flash = [], notices = []\<rparr>;
       rq = \<lparr>user = LoggedIn bob, method = ''POST'', path = ''/messages/'',
             GET = Map.empty, POST = [''recipient'' \<mapsto> ''1'', ''body'' \<mapsto> ''thanks'']\<rparr>;
       g = \<lparr>notification = False, inbox_url = ''/messages/inbox/'', login_url = ''/accounts/login/''\<rparr>;
       mgr = \<lparr>inbox_for = (\<lambda>tbl u. case tbl 1 of None \<Rightarrow> [] | Some x \<Rightarrow> [(1, x)]),
              outbox_for = (\<lambda>tbl u. []), trash_for = (\<lambda>tbl u. [])\<rparr>;
       fc = \<lparr>is_valid = (\<lambda>fm db. True),
             form_save = (\<lambda>fm u parent db. db\<lparr>save_log := save_log db @ [2]\<rparr>),
             fields_recipient = (\<lambda>fm. \<lparr>required = True, recipient_filter = filter_kw fm\<rparr>)\<rparr>;
       sent = st\<lparr>save_log := [2], flash := [''Message successfully sent.'']\<rparr>
   in user rq = LoggedIn bob \<and> message_table st 1 = Some m
      \<and> inbox g mgr ''django_messages/inbox.html'' rq st
           = (Inr (Rendered ''django_messages/inbox.html'' (MessageList [(1, m)])), st)
      \<and> compose g fc None ''django_messages/compose.html'' None None rq st
           = (Inr (HttpResponseRedirect ''/messages/inbox/''), sent)
      \<and> reply g fc 1 ''django_messages/compose.html'' None None rq st
           = (Inr (HttpResponseRedirect ''/messages/inbox/''), sent)
      \<and> fst (delete g 9 1 None rq st) = Inr (HttpResponseRedirect ''/messages/inbox/'')
      \<and> message_table (snd (delete g 9 1 None rq st)) = [1 \<mapsto> m\<lparr>recipient_deleted_at := Some 9\<rparr>]
      \<and> save_log (snd (delete g 9 1 None rq st)) = [1]
      \<and> message_table (snd (undelete g 1 None rq st)) = [1 \<mapsto> m]
      \<and> save_log (snd (undelete g 1 None rq st)) = [1]
      \<and> message_table (snd (view g 9 1 ''django_messages/view.html'' rq st))
           = [1 \<mapsto> m\<lparr>read_at := Some 9\<rparr>]
      \<and> save_log (snd (view g 9 1 ''django_messages/view.html'' rq st)) = [1]"
proof -
  let ?ann = "\<lparr>user_id = 1, username = ''ann''\<rparr>" and ?bob = "\<lparr>user_id = 2, username = ''bob''\<rparr>"
  let ?m = "\<lparr>sender = ?ann, recipient = ?bob, subject = ''hi'', body = ''hello'', sent_at = Some 3,
            read_at = None, replied_at = None, sender_deleted_at = None,
            recipient_deleted_at = None\<rparr>"
  let ?st = "\<lparr>user_table = [?ann, ?bob], profile_signature = [1 \<mapsto> ''-- ann'', 2 \<mapsto> ''-- bob''],
             message_table = [1 \<mapsto> ?m], save_log = [], flash = [], notices = []\<rparr>"
  let ?rq = "\<lparr>user = LoggedIn ?bob, method = ''POST'', path = ''/messages/'',
             GET = Map.empty, POST = [''recipient'' \<mapsto> ''1'', ''body'' \<mapsto> ''thanks'']\<rparr>"
  let ?g = "\<lparr>notification = False, inbox_url = ''/messages/inbox/'', login_url = ''/accounts/login/''\<rparr>"
  let ?mgr = "\<lparr>inbox_for = (\<lambda>tbl u. case tbl 1 of None \<Rightarrow> [] | Some x \<Rightarrow> [(1, x)]),
              outbox_for = (\<lambda>tbl u. []), trash_for = (\<lambda>tbl u. [])\<rparr>"
  let ?fc = "\<lparr>is_valid = (\<lambda>fm db. True),
             form_save = (\<lambda>fm u parent db. db\<lparr>save_log := save_log db @ [2]\<rparr>),
             fields_recipient = (\<lambda>fm. \<lparr>required = True, recipient_filter = filter_kw fm\<rparr>)\<rparr>"
  have h1: "user ?rq = LoggedIn ?bob" by simp
  have h2: "message_table ?st 1 = Some ?m" by simp
  have urls: "fst (compose ?g ?fc None ''django_messages/compose.html'' None None ?rq ?st)
        = Inr (HttpResponseRedirect ''/messages/inbox/'')"
      "fst (reply ?g ?fc 1 ''django_messages/compose.html'' None None ?rq ?st)
        = Inr (HttpResponseRedirect ''/messages/inbox/'')"
      "fst (delete ?g 9 1 None ?rq ?st) = Inr (HttpResponseRedirect ''/messages/inbox/'')"
    by (simp_all add: compose_def reply_def delete_def login_required_def compose_body_def
        reply_body_def delete_body_def get_object_or_404_def user_eq_def pk_def)
  show ?thesis
    using handlers_check_mutate_save [OF h1 h2, of None ?fc ?g None "''django_messages/compose.html''"
        None 9 ?mgr]
      handlers_check_mutate_save [OF h1 h2, of None ?fc ?g None "''django_messages/inbox.html''"
        None 9 ?mgr]
      handlers_check_mutate_save [OF h1 h2, of None ?fc ?g None "''django_messages/view.html''"
        None 9 ?mgr]
      urls
    by (auto simp: Let_def user_eq_def pk_def messages_info_def)
qed

text \<open>
  The claim as stated fails on handlers that the module does have: \<^verbatim>\<open>inbox\<close> lists the
  messages of any logged-in user, \<^verbatim>\<open>compose\<close> and \<^verbatim>\<open>reply\<close> answer a \<^verbatim>\<open>GET\<close> with the
  form, and \<^verbatim>\<open>view\<close> shows the sender the message; none of the four runs mutates or
  saves anything.
\<close>

theorem handlers_check_mutate_save_counterexample:
  "let ann = \<lparr>user_id = 1, username = ''ann''\<rparr>; bob = \<lparr>user_id = 2, username = ''bob''\<rparr>;
       m = \<lparr>sender = ann, recipient = bob, subject = ''hi'', body = ''hello'', sent_at = Some 3,
            read_at = None, replied_at = None, sender_deleted_at = None,
            recipient_deleted_at = None\<rparr>;
       st = \<lparr>user_table = [ann, bob], profile_signature = [1 \<mapsto> ''-- ann'', 2 \<mapsto> ''-- bob''],
             message_table = [1 \<mapsto> m], save_log = [], flash = [], notices = []\<rparr>;
       rq = \<lparr>user = LoggedIn bob, method = ''GET'', path = ''/messages/'',
             GET = Map.empty, POST = Map.empty\<rparr>;
       g = \<lparr>notification = False, inbox_url = ''/messages/inbox/'', login_url = ''/accounts/login/''\<rparr>;
       mgr = \<lparr>inbox_for = (\<lambda>tbl u. case tbl 1 of None \<Rightarrow> [] | Some x \<Rightarrow> [(1, x)]),
              outbox_for = (\<lambda>tbl u. []), trash_for = (\<lambda>tbl u. [])\<rparr>;
       fc = \<lparr>is_valid = (\<lambda>fm db. True),
             form_save = (\<lambda>fm u parent db. db\<lparr>save_log := save_log db @ [2]\<rparr>),
             fields_recipient = (\<lambda>fm. \<lparr>required = True, recipient_filter = filter_kw fm\<rparr>)\<rparr>
   in inbox g mgr ''django_messages/inbox.html'' rq st
        = (Inr (Rendered ''django_messages/inbox.html'' (MessageList [(1, m)])), st)
      \<and> compose g fc (Some ''1'') ''django_messages/compose.html'' None None rq st
        = (Inr (Rendered ''django_messages/compose.html''
                 (FormCtx \<lparr>data = None, filter_kw = None,
                           initial = [(''to'', FStr ''-- ann''), (''recipient'', FList [ann])]\<rparr>)), st)
      \<and> reply g fc 1 ''django_messages/compose.html'' None None rq st
        = (Inr (Rendered ''django_messages/compose.html''
                 (FormCtx \<lparr>data = None, filter_kw = None,
                           initial = [(''to'', FStr ''-- ann''), (''subject'', FStr ''Re: hi''),
                                      (''recipient'', FList [ann])]\<rparr>)), st)
      \<and> view g 9 1 ''django_messages/view.html'' (rq\<lparr>user := LoggedIn ann\<rparr>) st
        = (Inr (Rendered ''django_messages/view.html'' (MessageCtx 1 m)), st)"
proof -
  let ?ann = "\<lparr>user_id = 1, username = ''ann''\<rparr>" and ?bob = "\<lparr>user_id = 2, username = ''bob''\<rparr>"
  have ids: "map strip (split ''1'' CHR ''+'') = [''1'']"
    by code_simp
  have lookup: "filter_pk_in [?ann, ?bob] [''1''] = Inr [?ann]"
    by code_simp
  show ?thesis
    by (simp add: Let_def inbox_def compose_def reply_def view_def login_required_def
        inbox_body_def compose_body_def reply_body_def view_body_def get_object_or_404_def
        compose_render_def signature_def ids lookup user_eq_def pk_def)
qed





end
